theory Spec2Isabelle
  imports Main
begin

section \<open>The HTTP layer: src/src/assets.router.ts\<close>

subsection \<open>Values, errors and responses\<close>

text \<open>
  A JavaScript value as the router sees it: what \<open>JSON.parse\<close> returns, what
  \<open>req.body\<close> holds and what \<open>res.json\<close> sends. Numbers are passed through and
  never computed with, so an integer stands for them.
\<close>

datatype jsval =
    Undefined
  | Null
  | Bool bool
  | Num int
  | Str string
  | Arr "jsval list"
  | Obj "(string \<times> jsval) list"

text \<open>
  A thrown value, by the class the handlers can tell apart:
  \<open>AssetNotFoundError\<close> is imported from \<open>./errors\<close>, \<open>SyntaxError\<close> is what
  \<open>JSON.parse\<close> throws, \<open>TypeError\<close> is what reading a property of \<open>undefined\<close>
  or \<open>null\<close> throws, and \<open>OtherError\<close> is any other class, named.
\<close>

datatype thrown =
    AssetNotFoundError string
  | SyntaxError string
  | TypeError string
  | OtherError string string

fun instanceof_AssetNotFoundError :: "thrown \<Rightarrow> bool" where
  "instanceof_AssetNotFoundError (AssetNotFoundError m) = True"
| "instanceof_AssetNotFoundError e = False"

text \<open>The five members of \<open>StatusCodes\<close> the router destructures (lines 31-32).\<close>

datatype status_code = OK | ACCEPTED | BAD_REQUEST | NOT_FOUND | INTERNAL_SERVER_ERROR

fun code_of :: "status_code \<Rightarrow> nat" where
  "code_of OK = 200"
| "code_of ACCEPTED = 202"
| "code_of BAD_REQUEST = 400"
| "code_of NOT_FOUND = 404"
| "code_of INTERNAL_SERVER_ERROR = 500"

fun getReasonPhrase :: "status_code \<Rightarrow> string" where
  "getReasonPhrase OK = ''OK''"
| "getReasonPhrase ACCEPTED = ''Accepted''"
| "getReasonPhrase BAD_REQUEST = ''Bad Request''"
| "getReasonPhrase NOT_FOUND = ''Not Found''"
| "getReasonPhrase INTERNAL_SERVER_ERROR = ''Internal Server Error''"

record response =
  res_status :: status_code
  res_headers :: "(string \<times> string) list"
  res_json :: jsval

text \<open>
  An async handler either sends a response or rejects with the value thrown outside
  its \<open>try\<close> block.
\<close>

datatype reply = Responded response | Rejected thrown

subsection \<open>Requests, application state and collaborators\<close>

datatype contract = Contract string

record request =
  user :: string
  params_certificateHash :: string
  req_body :: jsval

text \<open>
  \<open>req.app.locals\<close>: the asset contract of each MSP id, and the submit queue
  \<open>jobq\<close>, whose type belongs to the queue library and stays a parameter.
\<close>

record 'q app =
  assetContract :: "string \<Rightarrow> contract option"
  jobq :: 'q

datatype validator = IsObject | NotEmpty | IsNumeric

text \<open>
  What the router imports and calls, taken as parameters:
  \<open>evatuateTransaction\<close> (from \<open>./fabric\<close>) returns the bytes of the result or throws;
  \<open>addSubmitTransactionJob\<close> (from \<open>./jobs\<close>) returns a job id or throws, and leaves
  the queue in a new state either way; \<open>JSON_parse\<close> is \<open>JSON.parse\<close>, \<open>None\<close> when
  it throws its \<open>SyntaxError\<close>; \<open>toISOString\<close> is \<open>new Date().toISOString()\<close>.
  A buffer and the string \<open>toString()\<close> decodes from it are the same list of characters.
\<close>

record 'q env =
  evatuateTransaction :: "contract option \<Rightarrow> string \<Rightarrow> string list \<Rightarrow> thrown + string"
  addSubmitTransactionJob :: "'q \<Rightarrow> string \<Rightarrow> string \<Rightarrow> jsval list \<Rightarrow> (thrown + string) \<times> 'q"
  JSON_parse :: "string \<Rightarrow> jsval option"
  toISOString :: string

text \<open>The calls a handler makes to the ledger and to the queue, in order.\<close>

datatype call =
    EvaluateTransaction "contract option" string "string list"
  | AddSubmitTransactionJob string string "jsval list"

record 'q outcome =
  reply :: reply
  queue_after :: 'q
  calls :: "call list"

text \<open>\<open>res.status(c).json({status: getReasonPhrase(c), timestamp: ...})\<close>\<close>

definition status_response :: "'q env \<Rightarrow> status_code \<Rightarrow> response" where
  "status_response E c =
     \<lparr>res_status = c, res_headers = [],
      res_json = Obj [(''status'', Str (getReasonPhrase c)),
                      (''timestamp'', Str (toISOString E))]\<rparr>"

definition json_response :: "status_code \<Rightarrow> jsval \<Rightarrow> response" where
  "json_response c v = \<lparr>res_status = c, res_headers = [], res_json = v\<rparr>"

subsection \<open>The read handlers\<close>

text \<open>\<open>assetsRouter.get('/')\<close>, lines 36-56.\<close>

definition getAllAssets :: "'q env \<Rightarrow> 'q app \<Rightarrow> request \<Rightarrow> 'q outcome" where
  "getAllAssets E a req =
     (let mspId = user req;
          contract = assetContract a mspId;
          r = (case evatuateTransaction E contract ''GetAllCertificates'' [] of
                 Inl err \<Rightarrow> status_response E INTERNAL_SERVER_ERROR
               | Inr data \<Rightarrow>
                   if length data > 0 then
                     (case JSON_parse E data of
                        None \<Rightarrow> status_response E INTERNAL_SERVER_ERROR
                      | Some assets \<Rightarrow> json_response OK assets)
                   else json_response OK (Arr []))
      in \<lparr>reply = Responded r, queue_after = jobq a,
          calls = [EvaluateTransaction contract ''GetAllCertificates'' []]\<rparr>)"

text \<open>\<open>assetsRouter.options('/:certificateHash')\<close>, lines 124-172.\<close>

definition certificateOptions :: "'q env \<Rightarrow> 'q app \<Rightarrow> request \<Rightarrow> 'q outcome" where
  "certificateOptions E a req =
     (let certificateHash = params_certificateHash req;
          mspId = user req;
          contract = assetContract a mspId;
          r = (case evatuateTransaction E contract ''CertificateExists'' [certificateHash] of
                 Inl err \<Rightarrow> status_response E INTERNAL_SERVER_ERROR
               | Inr data \<Rightarrow>
                   if data = ''true'' then
                     (status_response E OK)
                       \<lparr>res_headers := [(''Allow'', ''DELETE,GET,OPTIONS,PATCH,PUT'')]\<rparr>
                   else status_response E NOT_FOUND)
      in \<lparr>reply = Responded r, queue_after = jobq a,
          calls = [EvaluateTransaction contract ''CertificateExists'' [certificateHash]]\<rparr>)"

text \<open>\<open>assetsRouter.get('/:certificateHash')\<close>, lines 174-212.\<close>

definition readCertificate :: "'q env \<Rightarrow> 'q app \<Rightarrow> request \<Rightarrow> 'q outcome" where
  "readCertificate E a req =
     (let certificateHash = params_certificateHash req;
          mspId = user req;
          contract = assetContract a mspId;
          caught = (\<lambda>err. if instanceof_AssetNotFoundError err
                          then status_response E NOT_FOUND
                          else status_response E INTERNAL_SERVER_ERROR);
          r = (case evatuateTransaction E contract ''ValidateCertificate'' [certificateHash] of
                 Inl err \<Rightarrow> caught err
               | Inr data \<Rightarrow>
                   (case JSON_parse E data of
                      None \<Rightarrow> caught (SyntaxError data)
                    | Some certificate \<Rightarrow> json_response OK certificate))
      in \<lparr>reply = Responded r, queue_after = jobq a,
          calls = [EvaluateTransaction contract ''ValidateCertificate'' [certificateHash]]\<rparr>)"

subsection \<open>The create handler and its validation chains\<close>

text \<open>
  One \<open>body(field, message)...\<close> chain of lines 60-69: the field it selects (\<open>None\<close> for
  \<open>body()\<close>), the message of its errors and its validators in the order written.
\<close>

record chain =
  selector :: "string option"
  message :: string
  checks :: "validator list"

definition createChains :: "chain list" where
  "createChains =
     [\<lparr>selector = None, message = ''body must contain a certificate object'', checks = [IsObject]\<rparr>,
      \<lparr>selector = Some ''CertificateHash'', message = ''must be a string'', checks = [NotEmpty]\<rparr>,
      \<lparr>selector = Some ''CertificateDate'', message = ''must be a string'', checks = [NotEmpty]\<rparr>,
      \<lparr>selector = Some ''StudentId'', message = ''must be a number'', checks = [IsNumeric, NotEmpty]\<rparr>,
      \<lparr>selector = Some ''StudentName'', message = ''must be a string'', checks = [NotEmpty]\<rparr>,
      \<lparr>selector = Some ''StudentCPF'', message = ''must be a string'', checks = [NotEmpty]\<rparr>,
      \<lparr>selector = Some ''CourseName'', message = ''must be a string'', checks = [NotEmpty]\<rparr>,
      \<lparr>selector = Some ''CourseHours'', message = ''must be a number'', checks = [IsNumeric, NotEmpty]\<rparr>,
      \<lparr>selector = Some ''CourseCompletionDate'', message = ''must be a string'', checks = [NotEmpty]\<rparr>,
      \<lparr>selector = Some ''InstitutionName'', message = ''must be a string'', checks = [NotEmpty]\<rparr>]"

text \<open>
  \<open>req.body.K\<close>: reading a property of \<open>undefined\<close> or \<open>null\<close> throws a
  \<open>TypeError\<close>; an object gives the value stored under the key or \<open>undefined\<close>; any
  other value has none of the nine keys. The keys of an object are distinct.
\<close>

fun getProperty :: "jsval \<Rightarrow> string \<Rightarrow> thrown + jsval" where
  "getProperty Undefined k = Inl (TypeError k)"
| "getProperty Null k = Inl (TypeError k)"
| "getProperty (Obj kvs) k = Inr (case map_of kvs k of None \<Rightarrow> Undefined | Some v \<Rightarrow> v)"
| "getProperty v k = Inr Undefined"

definition prop_or_undefined :: "jsval \<Rightarrow> string \<Rightarrow> jsval" where
  "prop_or_undefined b k = (case getProperty b k of Inl e \<Rightarrow> Undefined | Inr v \<Rightarrow> v)"

subsection \<open>The validators of express-validator\<close>

text \<open>
  The router imports \<open>body\<close> and \<open>validationResult\<close> from express-validator (version 6,
  whose errors have the keys \<open>value\<close>, \<open>msg\<close>, \<open>param\<close>, \<open>location\<close>). A standard
  validator (\<open>notEmpty\<close>, \<open>isNumeric\<close>) is a function of validator.js on strings, so the
  chain first turns the field's value into a string; \<open>isObject\<close> looks at the value
  itself. None of this is in the repository: it is the library as documented.
\<close>

text \<open>The decimal digits of a natural number.\<close>

fun nat_digits :: "nat \<Rightarrow> string" where
  "nat_digits n =
     (if n < 10 then [''0123456789'' ! n]
      else nat_digits (n div 10) @ [''0123456789'' ! (n mod 10)])"

declare nat_digits.simps [simp del]

text \<open>
  \<open>String(n)\<close> for an integer: plain digits below \<open>10^21\<close>, the exponent form
  (\<open>1e+21\<close>, \<open>1.5e+21\<close>) from there on.
\<close>

definition number_string :: "int \<Rightarrow> string" where
  "number_string n =
     (let ds = nat_digits (nat \<bar>n\<bar>);
          sign = (if n < 0 then ''-'' else [])
      in if length ds \<le> 21 then sign @ ds
         else (case rev (dropWhile (\<lambda>c. c = CHR ''0'') (rev ds)) of
                 [] \<Rightarrow> sign @ ds
               | d # frac \<Rightarrow>
                   sign @ [d] @ (if frac = [] then [] else CHR ''.'' # frac) @ ''e+'' @
                   nat_digits (length ds - 1)))"

fun join_comma :: "string list \<Rightarrow> string" where
  "join_comma [] = []"
| "join_comma [x] = x"
| "join_comma (x # y # ys) = x @ '','' @ join_comma (y # ys)"

text \<open>
  The string JavaScript makes of a value that stands inside an array, and of the
  array itself (\<open>Array.prototype.toString\<close> joins with commas; \<open>null\<close> and
  \<open>undefined\<close> give the empty string there). An object carries no key \<open>toString\<close>
  of its own and prints as \<open>[object Object]\<close>.
\<close>

fun element_string :: "jsval \<Rightarrow> string" where
  "element_string Undefined = []"
| "element_string Null = []"
| "element_string (Bool b) = (if b then ''true'' else ''false'')"
| "element_string (Num n) = number_string n"
| "element_string (Str s) = s"
| "element_string (Arr xs) = join_comma (map element_string xs)"
| "element_string (Obj kvs) = ''[object Object]''"

text \<open>
  \<open>toString(value)\<close> of express-validator 6: a non-empty array stands for its first
  element, an empty one for the empty string; \<open>null\<close> and \<open>undefined\<close> give the empty
  string; anything else its JavaScript string.
\<close>

definition toString :: "jsval \<Rightarrow> string" where
  "toString v = element_string (case v of Arr (x # xs) \<Rightarrow> x | _ \<Rightarrow> v)"

text \<open>\<open>isEmpty\<close> of validator.js with its default options: the string has length 0.\<close>

definition isEmpty :: "string \<Rightarrow> bool" where
  "isEmpty str \<longleftrightarrow> str = []"

definition is_digit :: "char \<Rightarrow> bool" where
  "is_digit c \<longleftrightarrow> c \<in> set ''0123456789''"

text \<open>
  \<open>isNumeric\<close> of validator.js with its default options: the string matches
  \<open>^[+-]?([0-9]*[.])?[0-9]+$\<close>.
\<close>

definition isNumeric :: "string \<Rightarrow> bool" where
  "isNumeric str =
     (let unsigned = (case str of
                        [] \<Rightarrow> []
                      | c # cs \<Rightarrow> if c = CHR ''+'' \<or> c = CHR ''-'' then cs else str);
          rest = dropWhile is_digit unsigned
      in case rest of
           [] \<Rightarrow> unsigned \<noteq> []
         | c # cs \<Rightarrow> c = CHR ''.'' \<and> cs \<noteq> [] \<and> list_all is_digit cs)"

text \<open>
  Whether a validator of a chain accepts a value: \<open>isObject()\<close> (strict by default)
  wants an object that is neither \<open>null\<close> nor an array; \<open>notEmpty()\<close> is
  \<open>not().isEmpty()\<close>; \<open>isNumeric()\<close> is the standard validator.
\<close>

fun accepts :: "validator \<Rightarrow> jsval \<Rightarrow> bool" where
  "accepts IsObject v = (case v of Obj kvs \<Rightarrow> True | _ \<Rightarrow> False)"
| "accepts NotEmpty v = (\<not> isEmpty (toString v))"
| "accepts IsNumeric v = isNumeric (toString v)"

text \<open>The value a chain validates: the whole body for \<open>body()\<close>, else the field of that name.\<close>

definition selectField :: "jsval \<Rightarrow> string option \<Rightarrow> jsval" where
  "selectField b f = (case f of None \<Rightarrow> b | Some k \<Rightarrow> prop_or_undefined b k)"

text \<open>One element of \<open>errors.array()\<close>.\<close>

record verror =
  err_value :: jsval
  err_msg :: string
  err_param :: string

text \<open>
  \<open>validationResult(req)\<close>: one error for every validator of every chain that does
  not accept its field, in the order of the chains; each carries the value validated,
  the chain's message and the field's name (empty for \<open>body()\<close>).
\<close>

definition chain_errors :: "jsval \<Rightarrow> chain \<Rightarrow> verror list" where
  "chain_errors b c =
     map (\<lambda>v. \<lparr>err_value = selectField b (selector c), err_msg = message c,
               err_param = (case selector c of None \<Rightarrow> [] | Some k \<Rightarrow> k)\<rparr>)
         (filter (\<lambda>v. \<not> accepts v (selectField b (selector c))) (checks c))"

definition validationResult :: "request \<Rightarrow> verror list" where
  "validationResult req = concat (map (chain_errors (req_body req)) createChains)"

text \<open>
  An error as \<open>res.json\<close> sends it: the key \<open>value\<close> is left out when the value is
  \<open>undefined\<close>.
\<close>

definition verror_json :: "verror \<Rightarrow> jsval" where
  "verror_json e =
     Obj ((if err_value e = Undefined then [] else [(''value'', err_value e)]) @
          [(''msg'', Str (err_msg e)),
           (''param'', Str (err_param e)),
           (''location'', Str ''body'')])"

subsection \<open>The create handler\<close>

definition validation_error_response :: "'q env \<Rightarrow> verror list \<Rightarrow> response" where
  "validation_error_response E errors =
     \<lparr>res_status = BAD_REQUEST, res_headers = [],
      res_json = Obj [(''status'', Str (getReasonPhrase BAD_REQUEST)),
                      (''reason'', Str ''VALIDATION_ERROR''),
                      (''message'', Str ''Invalid request body''),
                      (''timestamp'', Str (toISOString E)),
                      (''errors'', Arr (map verror_json errors))]\<rparr>"

definition accepted_response :: "'q env \<Rightarrow> string \<Rightarrow> response" where
  "accepted_response E jobId =
     \<lparr>res_status = ACCEPTED, res_headers = [],
      res_json = Obj [(''status'', Str (getReasonPhrase ACCEPTED)),
                      (''jobId'', Str jobId),
                      (''timestamp'', Str (toISOString E))]\<rparr>"

text \<open>The arguments of lines 93-101, in order.\<close>

definition createArgs :: "jsval \<Rightarrow> jsval \<Rightarrow> jsval list" where
  "createArgs certificateHash b =
     certificateHash #
     map (prop_or_undefined b)
       [''CertificateDate'', ''StudentId'', ''StudentName'', ''StudentCPF'',
        ''CourseName'', ''CourseHours'', ''CourseCompletionDate'', ''InstitutionName'']"

text \<open>
  \<open>assetsRouter.post('/')\<close>, lines 58-122. Line 85 reads \<open>req.body.CertificateHash\<close>
  before the \<open>try\<close>, so a throw there rejects the handler; the reads of lines 94-101
  come after it and cannot throw.
\<close>

definition createCertificate :: "'q env \<Rightarrow> 'q app \<Rightarrow> request \<Rightarrow> 'q outcome" where
  "createCertificate E a req =
     (let errors = validationResult req in
      if errors \<noteq> [] then
        \<lparr>reply = Responded (validation_error_response E errors),
         queue_after = jobq a, calls = []\<rparr>
      else
        (let mspId = user req in
         case getProperty (req_body req) ''CertificateHash'' of
           Inl e \<Rightarrow> \<lparr>reply = Rejected e, queue_after = jobq a, calls = []\<rparr>
         | Inr certificateHash \<Rightarrow>
             (let submitQueue = jobq a;
                  args = createArgs certificateHash (req_body req);
                  c = AddSubmitTransactionJob mspId ''IssueCertificate'' args
              in case addSubmitTransactionJob E submitQueue mspId ''IssueCertificate'' args of
                   (Inr jobId, q') \<Rightarrow>
                     \<lparr>reply = Responded (accepted_response E jobId),
                      queue_after = q', calls = [c]\<rparr>
                 | (Inl err, q') \<Rightarrow>
                     \<lparr>reply = Responded (status_response E INTERNAL_SERVER_ERROR),
                      queue_after = q', calls = [c]\<rparr>)))"

section \<open>The submission pipeline: Job Store, retry policy, worker, status\<close>

text \<open>
  The router imports the queue (\<open>./jobs\<close>) and the ledger client (\<open>./fabric\<close>); neither
  file is among the sources. Every definition of this section is therefore written from
  the specification (sections 3, 4 and 7), and says so.
\<close>

subsection \<open>Data model\<close>

text \<open>Modelled from the spec: the lifecycle states of a SubmissionJob (section 3); the
  job module is missing from the sources.\<close>

datatype job_state = Queued | Active | Completed | Failed

text \<open>Modelled from the spec: the failure modes of the Ledger Gateway's submit
  (section 4.2); the ledger client module is missing from the sources.\<close>

datatype ledger_error = EndorsementConflict | OrderingTimeout | ChaincodeRejected | ConnectivityError

text \<open>Modelled from the spec: the error detail persisted with a failed job, "the final
  classification and message" (section 7); the job module is missing.\<close>

type_synonym error_detail = "ledger_error \<times> string"

text \<open>Modelled from the spec: SubmissionJob (section 3), whose module is missing: submitting
  identity, function, arguments, lifecycle state, attempt count, last error, the two
  timestamps, the transaction id and payload on success, and the time from which
  \<open>claimNext\<close> may take the job again (section 4.1, \<open>requeueWithBackoff\<close>). Times are
  natural numbers (milliseconds).\<close>

record job =
  identity :: string
  function_name :: string
  arguments :: "jsval list"
  state :: job_state
  attempts :: nat
  lastError :: "error_detail option"
  enqueuedAt :: nat
  updatedAt :: nat
  txId :: "string option"
  payload :: "string option"
  eligibleAt :: nat

text \<open>Modelled from the spec: the Job Store's contents (section 4.1), whose module is
  missing. A job's id is its position in the store, assigned at enqueue and never reused.\<close>

type_synonym store = "job list"

text \<open>Modelled from the spec: the Job Store's errors (section 7); the job module is missing.\<close>

datatype store_error = StoreUnavailable | JobNotFound | InvalidTransition

text \<open>Modelled from the spec: RetryPolicy (section 3) with the cap of section 4.3 and the
  lower retry ceiling of \<open>ConnectivityError\<close> (section 4.2); the worker module is
  missing. The retryable categories are an attribute of the policy.\<close>

record RetryPolicy =
  maximumAttempts :: nat
  connectivityCeiling :: nat
  baseDelay :: nat
  multiplier :: nat
  jitterBound :: nat
  cap :: nat
  retryable :: "ledger_error set"

subsection \<open>Job Store operations (section 4.1)\<close>

text \<open>Modelled from the spec: the job that \<open>enqueue\<close> creates (missing job module): state
  \<open>queued\<close>, no attempt made, no error, no result.\<close>

definition newJob :: "nat \<Rightarrow> string \<Rightarrow> string \<Rightarrow> jsval list \<Rightarrow> job" where
  "newJob now ident fn args =
     \<lparr>identity = ident, function_name = fn, arguments = args, state = Queued,
      attempts = 0, lastError = None, enqueuedAt = now, updatedAt = now,
      txId = None, payload = None, eligibleAt = now\<rparr>"

text \<open>Modelled from the spec: \<open>enqueue(identity, function, args) -> jobId\<close> (missing job
  module): fails with \<open>StoreUnavailable\<close> when the backing store is unreachable,
  otherwise assigns a fresh id and the state \<open>queued\<close>.\<close>

definition enqueue ::
  "bool \<Rightarrow> nat \<Rightarrow> string \<Rightarrow> string \<Rightarrow> jsval list \<Rightarrow> store \<Rightarrow> store_error + (nat \<times> store)" where
  "enqueue reachable now ident fn args s =
     (if \<not> reachable then Inl StoreUnavailable
      else Inr (length s, s @ [newJob now ident fn args]))"

text \<open>Modelled from the spec: which jobs \<open>claimNext\<close> may take (missing job module): those
  \<open>queued\<close> whose backoff delay has elapsed.\<close>

definition claimable :: "nat \<Rightarrow> job \<Rightarrow> bool" where
  "claimable now j \<longleftrightarrow> state j = Queued \<and> eligibleAt j \<le> now"

text \<open>Modelled from the spec: the search of \<open>claimNext\<close> (missing job module). The spec
  does not say which claimable job is taken; the model takes the oldest.\<close>

fun first_index :: "('a \<Rightarrow> bool) \<Rightarrow> 'a list \<Rightarrow> nat option" where
  "first_index P [] = None"
| "first_index P (x # xs) =
     (if P x then Some 0 else map_option Suc (first_index P xs))"

text \<open>Modelled from the spec: \<open>claimNext() -> SubmissionJob | none\<close> (missing job module):
  one step that turns one \<open>queued\<close> job \<open>active\<close> and returns it with its id.\<close>

definition claimNext :: "nat \<Rightarrow> store \<Rightarrow> (nat \<times> job) option \<times> store" where
  "claimNext now s =
     (case first_index (claimable now) s of
        None \<Rightarrow> (None, s)
      | Some i \<Rightarrow>
          (let j = (s ! i)\<lparr>state := Active, updatedAt := now\<rparr>
           in (Some (i, j), s[i := j])))"

text \<open>Modelled from the spec: \<open>completeWithResult(jobId, txId, payload)\<close> (missing job
  module): \<open>active \<rightarrow> completed\<close>; a second call with the same result is a no-op;
  an unknown id signals \<open>JobNotFound\<close>, any other state \<open>InvalidTransition\<close>.\<close>

definition completeWithResult ::
  "nat \<Rightarrow> nat \<Rightarrow> string \<Rightarrow> string \<Rightarrow> store \<Rightarrow> store_error + store" where
  "completeWithResult now jobId tx pl s =
     (if length s \<le> jobId then Inl JobNotFound
      else let j = s ! jobId in
        if state j = Active then
          Inr (s[jobId := j\<lparr>state := Completed, txId := Some tx, payload := Some pl,
                            updatedAt := now\<rparr>])
        else if state j = Completed \<and> txId j = Some tx \<and> payload j = Some pl then Inr s
        else Inl InvalidTransition)"

text \<open>Modelled from the spec: \<open>completeWithError(jobId, errorDetail)\<close> (missing job
  module): \<open>active \<rightarrow> failed\<close>, idempotent like \<open>completeWithResult\<close> (section 8).\<close>

definition completeWithError ::
  "nat \<Rightarrow> nat \<Rightarrow> error_detail \<Rightarrow> store \<Rightarrow> store_error + store" where
  "completeWithError now jobId detail s =
     (if length s \<le> jobId then Inl JobNotFound
      else let j = s ! jobId in
        if state j = Active then
          Inr (s[jobId := j\<lparr>state := Failed, lastError := Some detail, updatedAt := now\<rparr>])
        else if state j = Failed \<and> lastError j = Some detail then Inr s
        else Inl InvalidTransition)"

text \<open>Modelled from the spec: \<open>requeueWithBackoff(jobId, delay)\<close> (missing job module):
  \<open>active \<rightarrow> queued\<close>, not claimable until the delay has elapsed, attempt count
  incremented.\<close>

definition requeueWithBackoff :: "nat \<Rightarrow> nat \<Rightarrow> nat \<Rightarrow> store \<Rightarrow> store_error + store" where
  "requeueWithBackoff now jobId delay s =
     (if length s \<le> jobId then Inl JobNotFound
      else let j = s ! jobId in
        if state j = Active then
          Inr (s[jobId := j\<lparr>state := Queued, attempts := attempts j + 1,
                            eligibleAt := now + delay, updatedAt := now\<rparr>])
        else Inl InvalidTransition)"

text \<open>Modelled from the spec: \<open>get(jobId) -> SubmissionJob | NotFound\<close> (missing job
  module).\<close>

definition get :: "nat \<Rightarrow> store \<Rightarrow> store_error + job" where
  "get jobId s = (if length s \<le> jobId then Inl JobNotFound else Inr (s ! jobId))"

text \<open>Modelled from the spec: the crash-recovery step of section 6 and of the last
  scenario of section 8 (missing job module): on startup no worker is live, and every
  job left \<open>active\<close> is requeued with its attempt count preserved.\<close>

definition recoveryScan :: "nat \<Rightarrow> store \<Rightarrow> store" where
  "recoveryScan now s =
     map (\<lambda>j. if state j = Active then j\<lparr>state := Queued, updatedAt := now\<rparr> else j) s"

text \<open>Modelled from the spec: the six operations of section 4.1 and the recovery scan of
  section 6 as values, so that a sequence of them can be applied (missing job module).\<close>

datatype store_op =
    Enqueue bool string string "jsval list"
  | ClaimNext
  | CompleteWithResult nat string string
  | CompleteWithError nat error_detail
  | RequeueWithBackoff nat nat
  | Get nat
  | RecoveryScan

text \<open>Modelled from the spec: the store after one operation made at time \<open>now\<close> (missing
  job module); an operation that signals an error leaves the store as it was.\<close>

fun apply_op :: "nat \<Rightarrow> store_op \<Rightarrow> store \<Rightarrow> store" where
  "apply_op now (Enqueue reachable ident fn args) s =
     (case enqueue reachable now ident fn args s of Inl e \<Rightarrow> s | Inr (i, s') \<Rightarrow> s')"
| "apply_op now ClaimNext s = snd (claimNext now s)"
| "apply_op now (CompleteWithResult jobId tx pl) s =
     (case completeWithResult now jobId tx pl s of Inl e \<Rightarrow> s | Inr s' \<Rightarrow> s')"
| "apply_op now (CompleteWithError jobId detail) s =
     (case completeWithError now jobId detail s of Inl e \<Rightarrow> s | Inr s' \<Rightarrow> s')"
| "apply_op now (RequeueWithBackoff jobId delay) s =
     (case requeueWithBackoff now jobId delay s of Inl e \<Rightarrow> s | Inr s' \<Rightarrow> s')"
| "apply_op now (Get jobId) s = s"
| "apply_op now RecoveryScan s = recoveryScan now s"

text \<open>Modelled from the spec: the stores a sequence of timed operations passes through,
  the starting store first (missing job module).\<close>

fun stores :: "store \<Rightarrow> (nat \<times> store_op) list \<Rightarrow> store list" where
  "stores s [] = [s]"
| "stores s (x # ops) = s # stores (apply_op (fst x) (snd x) s) ops"

text \<open>Modelled from the spec: the lifecycle states of job \<open>i\<close> along a list of stores, from
  the store in which it first exists (missing job module).\<close>

definition state_trace :: "nat \<Rightarrow> store list \<Rightarrow> job_state list" where
  "state_trace i ss = map (\<lambda>s. state (s ! i)) (filter (\<lambda>s. i < length s) ss)"

text \<open>Modelled from the spec: the state transition sequence of job \<open>i\<close>: its states with
  each run of the same state counted once (missing job module).\<close>

definition transition_sequence :: "nat \<Rightarrow> store list \<Rightarrow> job_state list" where
  "transition_sequence i ss = remdups_adj (state_trace i ss)"

text \<open>Modelled from the spec: the prefixes of
  \<open>queued \<rightarrow> active \<rightarrow> (queued \<rightarrow> active)* \<rightarrow> {completed|failed}\<close> (sections 3 and 8),
  read by an automaton with one function for each position (missing job module).\<close>

fun lifecycle_prefix :: "job_state list \<Rightarrow> bool"
  and after_queued :: "job_state list \<Rightarrow> bool"
  and after_active :: "job_state list \<Rightarrow> bool" where
  "lifecycle_prefix [] = True"
| "lifecycle_prefix (x # xs) = (x = Queued \<and> after_queued xs)"
| "after_queued [] = True"
| "after_queued (x # xs) = (x = Active \<and> after_active xs)"
| "after_active [] = True"
| "after_active (x # xs) =
     (if x = Queued then after_queued xs else (x = Completed \<or> x = Failed) \<and> xs = [])"

subsection \<open>Retry policy and worker (sections 3 and 4.3)\<close>

text \<open>Modelled from the spec: what the Ledger Gateway's \<open>submit\<close> returns to the worker
  (section 4.2; the ledger client module is missing): the transaction id and payload, or
  a tagged failure with its message.\<close>

datatype submit_outcome = Committed string string | SubmitFailed ledger_error string

text \<open>Modelled from the spec: the backoff delay before jitter,
  \<open>base * multiplier^attempt\<close> clamped to a cap (section 4.3; the worker module is
  missing).\<close>

definition backoffDelay :: "RetryPolicy \<Rightarrow> nat \<Rightarrow> nat" where
  "backoffDelay p attempt = min (cap p) (baseDelay p * multiplier p ^ attempt)"

text \<open>Modelled from the spec: the delay handed to \<open>requeueWithBackoff\<close>, the backoff delay
  plus a jitter drawn within the jitter bound (section 4.3; missing worker module).\<close>

definition delayWithJitter :: "RetryPolicy \<Rightarrow> nat \<Rightarrow> nat \<Rightarrow> nat" where
  "delayWithJitter p attempt draw = backoffDelay p attempt + min draw (jitterBound p)"

text \<open>Modelled from the spec: the retry ceiling of an error class (sections 3 and 4.2;
  missing worker module): the maximum attempts of the policy, and for
  \<open>ConnectivityError\<close> the lower ceiling (never above the maximum).\<close>

definition retryCeiling :: "RetryPolicy \<Rightarrow> ledger_error \<Rightarrow> nat" where
  "retryCeiling p e =
     (if e = ConnectivityError then min (connectivityCeiling p) (maximumAttempts p)
      else maximumAttempts p)"

text \<open>Modelled from the spec: what a worker does with the outcome of \<open>submit\<close> for the
  job it claimed (section 4.3; missing worker module): on success
  \<open>completeWithResult\<close>; on a retryable failure with the attempt count below the
  ceiling of its class \<open>requeueWithBackoff\<close>, with the delay of the attempt count the
  job then has (section 8: requeued with attempts = 1 after about base * multiplier);
  otherwise \<open>completeWithError\<close> with the classified error.\<close>

definition resolve ::
  "RetryPolicy \<Rightarrow> nat \<Rightarrow> nat \<Rightarrow> nat \<times> job \<Rightarrow> submit_outcome \<Rightarrow> store \<Rightarrow> store_error + store" where
  "resolve p now draw claimed out s =
     (case out of
        Committed tx pl \<Rightarrow> completeWithResult now (fst claimed) tx pl s
      | SubmitFailed e msg \<Rightarrow>
          if e \<in> retryable p \<and> attempts (snd claimed) < retryCeiling p e then
            requeueWithBackoff now (fst claimed)
              (delayWithJitter p (attempts (snd claimed) + 1) draw) s
          else completeWithError now (fst claimed) (e, msg) s)"

text \<open>Modelled from the spec: the system of sections 2 and 5 (missing job and worker
  modules): the Job Store and, for each worker, the job it holds between its claim and
  the end of its processing cycle.\<close>

record system =
  jobStore :: store
  holding :: "nat \<Rightarrow> (nat \<times> job) option"

text \<open>Modelled from the spec: the steps of the system (sections 2, 4.3 and 6; missing job
  and worker modules): a producer enqueues; an idle worker polls \<open>claimNext\<close>; the
  \<open>submit\<close> of a worker returns, with the jitter drawn for a possible requeue; the
  process restarts, which leaves no worker holding a job and runs the recovery scan.\<close>

datatype event =
    Produce bool string string "jsval list"
  | Poll nat
  | SubmitReturns nat submit_outcome nat
  | Restart

text \<open>Modelled from the spec: one step of the system at time \<open>now\<close> (sections 4.3 and 5;
  missing worker module). Each Job Store operation is a single atomic step; a worker
  that holds a job does not poll, and is idle again after its cycle.\<close>

fun step :: "RetryPolicy \<Rightarrow> nat \<Rightarrow> event \<Rightarrow> system \<Rightarrow> system" where
  "step p now (Produce reachable ident fn args) sys =
     sys\<lparr>jobStore := apply_op now (Enqueue reachable ident fn args) (jobStore sys)\<rparr>"
| "step p now (Poll w) sys =
     (case holding sys w of
        Some c \<Rightarrow> sys
      | None \<Rightarrow>
          (case claimNext now (jobStore sys) of
             (None, s') \<Rightarrow> sys
           | (Some c, s') \<Rightarrow> \<lparr>jobStore = s', holding = (holding sys)(w := Some c)\<rparr>))"
| "step p now (SubmitReturns w out draw) sys =
     (case holding sys w of
        None \<Rightarrow> sys
      | Some c \<Rightarrow>
          \<lparr>jobStore = (case resolve p now draw c out (jobStore sys) of
                         Inl e \<Rightarrow> jobStore sys | Inr s' \<Rightarrow> s'),
           holding = (holding sys)(w := None)\<rparr>)"
| "step p now Restart sys =
     \<lparr>jobStore = recoveryScan now (jobStore sys), holding = (\<lambda>w. None)\<rparr>"

text \<open>Modelled from the spec: the system after a sequence of timed steps (missing worker
  module).\<close>

fun run :: "RetryPolicy \<Rightarrow> system \<Rightarrow> (nat \<times> event) list \<Rightarrow> system" where
  "run p sys [] = sys"
| "run p sys (x # es) = run p (step p (fst x) (snd x) sys) es"

text \<open>Modelled from the spec: the system at start, an empty store and idle workers
  (missing worker module).\<close>

definition initial :: system where
  "initial = \<lparr>jobStore = [], holding = (\<lambda>w. None)\<rparr>"

subsection \<open>Job Status API (section 4.4)\<close>

text \<open>Modelled from the spec: the projection \<open>{state, attempts, result|error}\<close> of a job
  (section 4.4; the status module is missing).\<close>

record job_status =
  status_state :: job_state
  status_attempts :: nat
  status_result :: "(string \<times> string) option"
  status_error :: "error_detail option"

text \<open>Modelled from the spec: \<open>status(jobId)\<close>, read-only, \<open>JobNotFound\<close> for an unknown
  id (section 4.4; missing status module).\<close>

definition status :: "nat \<Rightarrow> store \<Rightarrow> store_error + job_status" where
  "status jobId s =
     (case get jobId s of
        Inl e \<Rightarrow> Inl e
      | Inr j \<Rightarrow>
          Inr \<lparr>status_state = state j, status_attempts = attempts j,
               status_result = (case txId j of None \<Rightarrow> None
                                | Some t \<Rightarrow> map_option (Pair t) (payload j)),
               status_error = lastError j\<rparr>)"

subsection \<open>Transitions and invariants\<close>

text \<open>Modelled from the spec: the single transitions of a job's lifecycle (section 3),
  \<open>queued \<rightarrow> active\<close>, \<open>active \<rightarrow> queued\<close> and \<open>active \<rightarrow> {completed | failed}\<close>
  (missing job module).\<close>

fun allowed :: "job_state \<Rightarrow> job_state \<Rightarrow> bool" where
  "allowed Queued Active = True"
| "allowed Active Queued = True"
| "allowed Active Completed = True"
| "allowed Active Failed = True"
| "allowed a b = False"

text \<open>Modelled from the spec: the ownership rule of sections 3 and 4.3 as an invariant
  of the system (missing worker module): a job a worker holds is in the store, is
  \<open>active\<close> and is as the worker claimed it, and no two workers hold the same job.\<close>

definition held_ok :: "system \<Rightarrow> bool" where
  "held_ok sys \<longleftrightarrow>
     (\<forall>w c. holding sys w = Some c \<longrightarrow>
        fst c < length (jobStore sys) \<and> jobStore sys ! fst c = snd c \<and> state (snd c) = Active) \<and>
     (\<forall>w w' c c'. holding sys w = Some c \<and> holding sys w' = Some c' \<and> fst c = fst c' \<longrightarrow> w = w')"

text \<open>Modelled from the spec: the invariant of a job under a retry policy (sections 3,
  4.3 and 7; missing worker module): no attempt count above the maximum, an error
  recorded only with a failed job, and a retryable error recorded only when the retries
  of its class were used up.\<close>

definition job_ok :: "RetryPolicy \<Rightarrow> job \<Rightarrow> bool" where
  "job_ok p j \<longleftrightarrow>
     attempts j \<le> maximumAttempts p \<and>
     (lastError j \<noteq> None \<longrightarrow> state j = Failed) \<and>
     (\<forall>e msg. lastError j = Some (e, msg) \<and> e \<in> retryable p \<longrightarrow> retryCeiling p e \<le> attempts j)"

text \<open>Modelled from the spec: the same invariant for every job of the store (missing
  worker module).\<close>

definition jobs_ok :: "RetryPolicy \<Rightarrow> store \<Rightarrow> bool" where
  "jobs_ok p s \<longleftrightarrow> (\<forall>j \<in> set s. job_ok p j)"

section \<open>Sample inputs\<close>

text \<open>Concrete collaborators and requests on which the handlers are evaluated.\<close>

type_synonym sample_queue = "(string \<times> string \<times> jsval list) list"

definition sample_env :: "(thrown + string) \<Rightarrow> sample_queue env" where
  "sample_env ledger =
     \<lparr>evatuateTransaction = (\<lambda>c fn args. ledger),
      addSubmitTransactionJob = (\<lambda>q mspId fn args. (Inr ''1'', q @ [(mspId, fn, args)])),
      JSON_parse = (\<lambda>s. if s = ''[]'' then Some (Arr [])
                        else if s = ''{}'' then Some (Obj []) else None),
      toISOString = ''2024-01-01T00:00:00.000Z''\<rparr>"

definition sample_app :: "sample_queue app" where
  "sample_app =
     \<lparr>assetContract = (\<lambda>m. if m = ''Org1MSP'' then Some (Contract ''basic'') else None),
      jobq = []\<rparr>"

definition sample_certificate :: jsval where
  "sample_certificate =
     Obj [(''CertificateHash'', Str ''abc123''), (''CertificateDate'', Str ''2024-01-01''),
          (''StudentId'', Num 7), (''StudentName'', Str ''Ana''), (''StudentCPF'', Str ''000''),
          (''CourseName'', Str ''Logic''), (''CourseHours'', Num 40),
          (''CourseCompletionDate'', Str ''2023-12-01''), (''InstitutionName'', Str ''UFAL'')]"

definition sample_request :: "jsval \<Rightarrow> request" where
  "sample_request b = \<lparr>user = ''Org1MSP'', params_certificateHash = ''abc123'', req_body = b\<rparr>"

text \<open>
  The sample certificate with one field replaced (\<open>Undefined\<close>: with the field left out).
\<close>

definition certificate_with :: "string \<Rightarrow> jsval \<Rightarrow> jsval" where
  "certificate_with k v =
     (case sample_certificate of
        Obj kvs \<Rightarrow> Obj (if v = Undefined then filter (\<lambda>kv. fst kv \<noteq> k) kvs
                        else map (\<lambda>kv. if fst kv = k then (k, v) else kv) kvs)
      | other \<Rightarrow> other)"

text \<open>A retry policy with three retries, one only after a connectivity error; the
  same policy with the multiplier set to zero; and a policy with a single retry.\<close>

definition sample_policy :: RetryPolicy where
  "sample_policy =
     \<lparr>maximumAttempts = 3, connectivityCeiling = 1, baseDelay = 100, multiplier = 2,
      jitterBound = 10, cap = 1000,
      retryable = {EndorsementConflict, OrderingTimeout, ConnectivityError}\<rparr>"

definition zero_multiplier_policy :: RetryPolicy where
  "zero_multiplier_policy = sample_policy\<lparr>multiplier := 0\<rparr>"

definition single_retry_policy :: RetryPolicy where
  "single_retry_policy = sample_policy\<lparr>maximumAttempts := 1, connectivityCeiling := 0\<rparr>"

text \<open>The job of the sample runs, by state, attempt count, last update and eligibility time.\<close>

definition sample_job :: "job_state \<Rightarrow> nat \<Rightarrow> nat \<Rightarrow> nat \<Rightarrow> job" where
  "sample_job st n upd elig =
     \<lparr>identity = ''Org1MSP'', function_name = ''IssueCertificate'', arguments = [Str ''abc123''],
      state = st, attempts = n, lastError = None, enqueuedAt = 0, updatedAt = upd,
      txId = None, payload = None, eligibleAt = elig\<rparr>"

text \<open>Sample runs of the system: a job enqueued and claimed; then failed once with a
  retryable error and claimed again; rejected by the chaincode on its first attempt; or
  failed twice with a connectivity error.\<close>

definition sample_first_claim :: "(nat \<times> event) list" where
  "sample_first_claim =
     [(0, Produce True ''Org1MSP'' ''IssueCertificate'' [Str ''abc123'']),
      (1, Poll 0)]"

definition sample_second_claim :: "(nat \<times> event) list" where
  "sample_second_claim =
     sample_first_claim @
     [(2, SubmitReturns 0 (SubmitFailed EndorsementConflict ''mvcc read conflict'') 3),
      (300, Poll 0)]"

definition sample_rejected :: "(nat \<times> event) list" where
  "sample_rejected =
     sample_first_claim @
     [(2, SubmitReturns 0 (SubmitFailed ChaincodeRejected ''already exists'') 3)]"

definition sample_outage :: "(nat \<times> event) list" where
  "sample_outage =
     sample_first_claim @
     [(2, SubmitReturns 0 (SubmitFailed ConnectivityError ''unreachable'') 3),
      (300, Poll 0),
      (301, SubmitReturns 0 (SubmitFailed ConnectivityError ''unreachable'') 4)]"

text \<open>Sample sequences of Job Store operations on one job: one with calls that are
  refused, one with a recovery scan after the claim.\<close>

definition sample_ops :: "(nat \<times> store_op) list" where
  "sample_ops =
     [(0, Enqueue True ''Org1MSP'' ''IssueCertificate'' [Str ''abc123'']),
      (1, ClaimNext),
      (2, RequeueWithBackoff 0 100),
      (50, ClaimNext),
      (102, ClaimNext),
      (103, CompleteWithResult 0 ''tx1'' ''ok''),
      (104, CompleteWithError 0 (ChaincodeRejected, ''late'')),
      (105, RequeueWithBackoff 0 5),
      (106, RecoveryScan),
      (107, ClaimNext)]"

definition sample_recovery :: "(nat \<times> store_op) list" where
  "sample_recovery =
     [(0, Enqueue True ''Org1MSP'' ''IssueCertificate'' [Str ''abc123'']),
      (1, ClaimNext),
      (2, RecoveryScan)]"

section \<open>Properties of the HTTP layer\<close>

text \<open>
  C10. When the evaluate call of a get-all-certificates request returns an empty byte
  buffer, the endpoint answers 200 OK with an empty JSON array, whatever \<open>JSON.parse\<close>
  would have made of the empty payload: it is not asked.
\<close>

theorem getAllAssets_empty_buffer:
  assumes "evatuateTransaction E (assetContract a (user req)) ''GetAllCertificates'' [] = Inr []"
  shows "reply (getAllAssets (E\<lparr>JSON_parse := parse\<rparr>) a req) = Responded (json_response OK (Arr []))
         \<and> code_of OK = 200"
  using assms by (simp add: getAllAssets_def)

theorem getAllAssets_empty_buffer_witness:
  "evatuateTransaction (sample_env (Inr [])) (assetContract sample_app (user (sample_request Null)))
      ''GetAllCertificates'' [] = Inr []
   \<and> reply (getAllAssets ((sample_env (Inr []))\<lparr>JSON_parse := (\<lambda>s. None)\<rparr>) sample_app
              (sample_request Null))
       = Responded \<lparr>res_status = OK, res_headers = [], res_json = Arr []\<rparr>"
  using getAllAssets_empty_buffer [of "sample_env (Inr [])" sample_app "sample_request Null" "\<lambda>s. None"]
  by (simp add: sample_env_def json_response_def)

text \<open>
  C9. A read-certificate request is answered 404 Not Found exactly when the evaluate call
  throws an \<open>AssetNotFoundError\<close>; any other throw of the evaluate call, and a payload
  that \<open>JSON.parse\<close> rejects, give 500 Internal Server Error; a payload that parses
  gives 200 with the parsed certificate.
\<close>

theorem readCertificate_status:
  "\<exists>r. reply (readCertificate E a req) = Responded r \<and>
     (res_status r = NOT_FOUND \<longleftrightarrow>
        (\<exists>m. evatuateTransaction E (assetContract a (user req)) ''ValidateCertificate''
                [params_certificateHash req] = Inl (AssetNotFoundError m))) \<and>
     (code_of (res_status r) = 404 \<longleftrightarrow>
        (\<exists>m. evatuateTransaction E (assetContract a (user req)) ''ValidateCertificate''
                [params_certificateHash req] = Inl (AssetNotFoundError m))) \<and>
     (\<forall>e. evatuateTransaction E (assetContract a (user req)) ''ValidateCertificate''
                [params_certificateHash req] = Inl e \<and> \<not> instanceof_AssetNotFoundError e
          \<longrightarrow> res_status r = INTERNAL_SERVER_ERROR \<and> code_of (res_status r) = 500 \<and>
              r = status_response E INTERNAL_SERVER_ERROR) \<and>
     (\<forall>d. evatuateTransaction E (assetContract a (user req)) ''ValidateCertificate''
                [params_certificateHash req] = Inr d \<and> JSON_parse E d = None
          \<longrightarrow> res_status r = INTERNAL_SERVER_ERROR \<and> code_of (res_status r) = 500 \<and>
              r = status_response E INTERNAL_SERVER_ERROR) \<and>
     (\<forall>d c. evatuateTransaction E (assetContract a (user req)) ''ValidateCertificate''
                [params_certificateHash req] = Inr d \<and> JSON_parse E d = Some c
          \<longrightarrow> res_status r = OK \<and> code_of (res_status r) = 200 \<and> res_json r = c \<and>
              r = json_response OK c)"
proof (cases "evatuateTransaction E (assetContract a (user req)) ''ValidateCertificate''
                [params_certificateHash req]")
  case (Inl e)
  then show ?thesis
    by (cases e) (simp_all add: readCertificate_def status_response_def)
next
  case (Inr d)
  then show ?thesis
    by (cases "JSON_parse E d") (simp_all add: readCertificate_def status_response_def json_response_def)
qed

theorem readCertificate_status_witness:
  "reply (readCertificate (sample_env (Inl (AssetNotFoundError ''abc123''))) sample_app (sample_request Null))
     = Responded \<lparr>res_status = NOT_FOUND, res_headers = [],
                   res_json = Obj [(''status'', Str ''Not Found''),
                                   (''timestamp'', Str ''2024-01-01T00:00:00.000Z'')]\<rparr>
   \<and> code_of NOT_FOUND = 404
   \<and> reply (readCertificate (sample_env (Inl (OtherError ''Error'' ''timeout''))) sample_app (sample_request Null))
     = Responded \<lparr>res_status = INTERNAL_SERVER_ERROR, res_headers = [],
                   res_json = Obj [(''status'', Str ''Internal Server Error''),
                                   (''timestamp'', Str ''2024-01-01T00:00:00.000Z'')]\<rparr>
   \<and> code_of INTERNAL_SERVER_ERROR = 500
   \<and> reply (readCertificate (sample_env (Inr ''<html>'')) sample_app (sample_request Null))
     = Responded \<lparr>res_status = INTERNAL_SERVER_ERROR, res_headers = [],
                   res_json = Obj [(''status'', Str ''Internal Server Error''),
                                   (''timestamp'', Str ''2024-01-01T00:00:00.000Z'')]\<rparr>
   \<and> reply (readCertificate (sample_env (Inr ''{}'')) sample_app (sample_request Null))
     = Responded \<lparr>res_status = OK, res_headers = [], res_json = Obj []\<rparr>
   \<and> code_of OK = 200"
  using readCertificate_status [of "sample_env (Inl (AssetNotFoundError ''abc123''))" sample_app "sample_request Null"]
        readCertificate_status [of "sample_env (Inl (OtherError ''Error'' ''timeout''))" sample_app "sample_request Null"]
        readCertificate_status [of "sample_env (Inr ''<html>'')" sample_app "sample_request Null"]
        readCertificate_status [of "sample_env (Inr ''{}'')" sample_app "sample_request Null"]
  by (simp add: readCertificate_def sample_env_def json_response_def status_response_def)

text \<open>
  C7. The three read handlers (get all, read by hash, existence check) leave the submit
  queue as it was and make exactly one call, to the evaluate operation of the ledger;
  none of them calls \<open>addSubmitTransactionJob\<close>.
\<close>

theorem reads_bypass_queue:
  "queue_after (getAllAssets E a req) = jobq a \<and>
   calls (getAllAssets E a req) =
     [EvaluateTransaction (assetContract a (user req)) ''GetAllCertificates'' []] \<and>
   queue_after (readCertificate E a req) = jobq a \<and>
   calls (readCertificate E a req) =
     [EvaluateTransaction (assetContract a (user req)) ''ValidateCertificate''
        [params_certificateHash req]] \<and>
   queue_after (certificateOptions E a req) = jobq a \<and>
   calls (certificateOptions E a req) =
     [EvaluateTransaction (assetContract a (user req)) ''CertificateExists''
        [params_certificateHash req]]"
  by (simp add: getAllAssets_def readCertificate_def certificateOptions_def Let_def)

text \<open>Validation passes exactly when the body is an object, no field is empty and the two
  numbers are numeric.\<close>

lemma validationResult_empty_iff:
  "validationResult req = [] \<longleftrightarrow>
     (\<exists>kvs. req_body req = Obj kvs) \<and>
     (\<forall>k \<in> set [''CertificateHash'', ''CertificateDate'', ''StudentId'', ''StudentName'',
                  ''StudentCPF'', ''CourseName'', ''CourseHours'', ''CourseCompletionDate'',
                  ''InstitutionName''].
        \<not> isEmpty (toString (prop_or_undefined (req_body req) k))) \<and>
     (\<forall>k \<in> set [''StudentId'', ''CourseHours''].
        isNumeric (toString (prop_or_undefined (req_body req) k)))"
  by (cases "req_body req")
     (auto simp: validationResult_def chain_errors_def createChains_def selectField_def)

lemma missing_field_empty:
  assumes "v = Undefined \<or> v = Null \<or> v = Str [] \<or> v = Arr []"
  shows "isEmpty (toString v)"
  using assms by (auto simp: toString_def isEmpty_def)

lemma createCertificate_invalid:
  assumes "validationResult req \<noteq> []"
  shows "createCertificate E a req =
           \<lparr>reply = Responded (validation_error_response E (validationResult req)),
            queue_after = jobq a, calls = []\<rparr>"
  using assms by (simp add: createCertificate_def)

lemma createCertificate_valid:
  assumes "validationResult req = []"
  shows "createCertificate E a req =
     (case addSubmitTransactionJob E (jobq a) (user req) ''IssueCertificate''
             (createArgs (prop_or_undefined (req_body req) ''CertificateHash'') (req_body req)) of
        (Inr jobId, q') \<Rightarrow>
          \<lparr>reply = Responded (accepted_response E jobId), queue_after = q',
           calls = [AddSubmitTransactionJob (user req) ''IssueCertificate''
              (createArgs (prop_or_undefined (req_body req) ''CertificateHash'') (req_body req))]\<rparr>
      | (Inl err, q') \<Rightarrow>
          \<lparr>reply = Responded (status_response E INTERNAL_SERVER_ERROR), queue_after = q',
           calls = [AddSubmitTransactionJob (user req) ''IssueCertificate''
              (createArgs (prop_or_undefined (req_body req) ''CertificateHash'') (req_body req))]\<rparr>)"
proof -
  from assms obtain kvs where b: "req_body req = Obj kvs"
    unfolding validationResult_empty_iff by blast
  then have h: "getProperty (req_body req) ''CertificateHash''
      = Inr (prop_or_undefined (req_body req) ''CertificateHash'')"
    by (simp add: prop_or_undefined_def)
  show ?thesis
    using assms by (simp add: createCertificate_def h Let_def)
qed

text \<open>
  C8, amended. When the body of a create-certificate request is not an object, or one
  of the nine fields CertificateHash, CertificateDate, StudentId, StudentName,
  StudentCPF, CourseName, CourseHours, CourseCompletionDate, InstitutionName is missing,
  \<open>null\<close> or empty, or StudentId or CourseHours is not numeric, the response is 400 Bad
  Request with reason \<open>VALIDATION_ERROR\<close>, the queue is untouched and
  \<open>addSubmitTransactionJob\<close> is not called. The call is made, and 202 Accepted returned
  with the job id, only when the body is an object, the nine fields are not empty and
  the two numbers are numeric; a field that is present and not empty passes whatever its
  type.
\<close>

theorem createCertificate_validation:
  "((\<forall>kvs. req_body req \<noteq> Obj kvs) \<or>
    (\<exists>k \<in> set [''CertificateHash'', ''CertificateDate'', ''StudentId'', ''StudentName'',
                  ''StudentCPF'', ''CourseName'', ''CourseHours'', ''CourseCompletionDate'',
                  ''InstitutionName''].
        isEmpty (toString (prop_or_undefined (req_body req) k))) \<or>
    (\<exists>k \<in> set [''StudentId'', ''CourseHours''].
        \<not> isNumeric (toString (prop_or_undefined (req_body req) k)))
    \<longrightarrow> (\<exists>r. createCertificate E a req =
               \<lparr>reply = Responded r, queue_after = jobq a, calls = []\<rparr> \<and>
            res_status r = BAD_REQUEST \<and> code_of (res_status r) = 400 \<and>
            getProperty (res_json r) ''reason'' = Inr (Str ''VALIDATION_ERROR''))) \<and>
   (k \<in> set [''CertificateHash'', ''CertificateDate'', ''StudentId'', ''StudentName'',
                  ''StudentCPF'', ''CourseName'', ''CourseHours'', ''CourseCompletionDate'',
                  ''InstitutionName''] \<and>
    (prop_or_undefined (req_body req) k = Undefined \<or>
     prop_or_undefined (req_body req) k = Null \<or>
     prop_or_undefined (req_body req) k = Str [])
    \<longrightarrow> (\<exists>r. createCertificate E a req =
               \<lparr>reply = Responded r, queue_after = jobq a, calls = []\<rparr> \<and>
            res_status r = BAD_REQUEST \<and> code_of (res_status r) = 400 \<and>
            getProperty (res_json r) ''reason'' = Inr (Str ''VALIDATION_ERROR''))) \<and>
   (calls (createCertificate E a req) \<noteq> [] \<or>
    (\<exists>r. reply (createCertificate E a req) = Responded r \<and> res_status r = ACCEPTED)
    \<longrightarrow> (\<exists>kvs. req_body req = Obj kvs) \<and>
        (\<forall>k \<in> set [''CertificateHash'', ''CertificateDate'', ''StudentId'', ''StudentName'',
                  ''StudentCPF'', ''CourseName'', ''CourseHours'', ''CourseCompletionDate'',
                  ''InstitutionName''].
           \<not> isEmpty (toString (prop_or_undefined (req_body req) k))) \<and>
        (\<forall>k \<in> set [''StudentId'', ''CourseHours''].
           isNumeric (toString (prop_or_undefined (req_body req) k))) \<and>
        calls (createCertificate E a req) =
          [AddSubmitTransactionJob (user req) ''IssueCertificate'' (createArgs (prop_or_undefined (req_body req) ''CertificateHash'') (req_body req))]) \<and>
   ((\<exists>kvs. req_body req = Obj kvs) \<and>
    (\<forall>k \<in> set [''CertificateHash'', ''CertificateDate'', ''StudentId'', ''StudentName'',
                  ''StudentCPF'', ''CourseName'', ''CourseHours'', ''CourseCompletionDate'',
                  ''InstitutionName''].
        \<not> isEmpty (toString (prop_or_undefined (req_body req) k))) \<and>
    (\<forall>k \<in> set [''StudentId'', ''CourseHours''].
        isNumeric (toString (prop_or_undefined (req_body req) k))) \<and>
    addSubmitTransactionJob E (jobq a) (user req) ''IssueCertificate'' (createArgs (prop_or_undefined (req_body req) ''CertificateHash'') (req_body req)) = (Inr jobId, q')
    \<longrightarrow> (\<exists>r. createCertificate E a req =
               \<lparr>reply = Responded r, queue_after = q',
                calls = [AddSubmitTransactionJob (user req) ''IssueCertificate'' (createArgs (prop_or_undefined (req_body req) ''CertificateHash'') (req_body req))]\<rparr> \<and>
            res_status r = ACCEPTED \<and> code_of (res_status r) = 202 \<and>
            getProperty (res_json r) ''jobId'' = Inr (Str jobId)))"
proof -
  let ?ok = "(\<exists>kvs. req_body req = Obj kvs) \<and>
    (\<forall>k \<in> set [''CertificateHash'', ''CertificateDate'', ''StudentId'', ''StudentName'',
                  ''StudentCPF'', ''CourseName'', ''CourseHours'', ''CourseCompletionDate'',
                  ''InstitutionName''].
        \<not> isEmpty (toString (prop_or_undefined (req_body req) k))) \<and>
    (\<forall>k \<in> set [''StudentId'', ''CourseHours''].
        isNumeric (toString (prop_or_undefined (req_body req) k)))"
  have ok_iff: "validationResult req = [] \<longleftrightarrow> ?ok"
    by (rule validationResult_empty_iff)
  have rejected: "(\<exists>r. createCertificate E a req =
               \<lparr>reply = Responded r, queue_after = jobq a, calls = []\<rparr> \<and>
            res_status r = BAD_REQUEST \<and> code_of (res_status r) = 400 \<and>
            getProperty (res_json r) ''reason'' = Inr (Str ''VALIDATION_ERROR''))" if "\<not> ?ok"
  proof -
    from that have "validationResult req \<noteq> []"
      unfolding ok_iff by blast
    from createCertificate_invalid [OF this, of E a] show ?thesis
      by (simp add: validation_error_response_def)
  qed
  have missing: "\<not> ?ok"
    if "k \<in> set [''CertificateHash'', ''CertificateDate'', ''StudentId'', ''StudentName'',
                  ''StudentCPF'', ''CourseName'', ''CourseHours'', ''CourseCompletionDate'',
                  ''InstitutionName'']"
      and "prop_or_undefined (req_body req) k = Undefined \<or>
           prop_or_undefined (req_body req) k = Null \<or>
           prop_or_undefined (req_body req) k = Str []"
  proof -
    from that(2) have "isEmpty (toString (prop_or_undefined (req_body req) k))"
      by (intro missing_field_empty) blast
    with that(1) show ?thesis by blast
  qed
  have accepted: "\<exists>r. createCertificate E a req =
               \<lparr>reply = Responded r, queue_after = q',
                calls = [AddSubmitTransactionJob (user req) ''IssueCertificate'' (createArgs (prop_or_undefined (req_body req) ''CertificateHash'') (req_body req))]\<rparr> \<and>
            res_status r = ACCEPTED \<and> code_of (res_status r) = 202 \<and>
            getProperty (res_json r) ''jobId'' = Inr (Str jobId)"
    if "?ok" and "addSubmitTransactionJob E (jobq a) (user req) ''IssueCertificate'' (createArgs (prop_or_undefined (req_body req) ''CertificateHash'') (req_body req)) = (Inr jobId, q')"
  proof -
    from that(1) have "validationResult req = []"
      unfolding ok_iff .
    from createCertificate_valid [OF this, of E a] that(2) show ?thesis
      by (simp add: accepted_response_def)
  qed
  have only: "?ok \<and> calls (createCertificate E a req) =
          [AddSubmitTransactionJob (user req) ''IssueCertificate'' (createArgs (prop_or_undefined (req_body req) ''CertificateHash'') (req_body req))]"
    if "calls (createCertificate E a req) \<noteq> [] \<or>
        (\<exists>r. reply (createCertificate E a req) = Responded r \<and> res_status r = ACCEPTED)"
  proof (cases "validationResult req = []")
    case True
    then have "?ok" unfolding ok_iff .
    moreover from createCertificate_valid [OF True, of E a]
    have "calls (createCertificate E a req) =
          [AddSubmitTransactionJob (user req) ''IssueCertificate'' (createArgs (prop_or_undefined (req_body req) ''CertificateHash'') (req_body req))]"
      by (simp split: prod.splits sum.splits)
    ultimately show ?thesis by blast
  next
    case False
    from createCertificate_invalid [OF False, of E a] that show ?thesis
      by (simp add: validation_error_response_def)
  qed
  from rejected missing accepted only show ?thesis
    by blast
qed

lemma sample_fields:
  "req_body (sample_request (certificate_with k v)) = certificate_with k v"
  by (simp add: sample_request_def)

lemma createCertificate_missing_hash:
  "createCertificate (sample_env (Inr [])) sample_app
     (sample_request (certificate_with ''CertificateHash'' Undefined))
   = \<lparr>reply = Responded
        \<lparr>res_status = BAD_REQUEST, res_headers = [],
         res_json = Obj [(''status'', Str ''Bad Request''),
                         (''reason'', Str ''VALIDATION_ERROR''),
                         (''message'', Str ''Invalid request body''),
                         (''timestamp'', Str ''2024-01-01T00:00:00.000Z''),
                         (''errors'',
                          Arr [Obj [(''msg'', Str ''must be a string''),
                                    (''param'', Str ''CertificateHash''),
                                    (''location'', Str ''body'')]])]\<rparr>,
      queue_after = [], calls = []\<rparr>"
  by (simp add: createCertificate_def validationResult_def chain_errors_def createChains_def
        selectField_def prop_or_undefined_def toString_def isEmpty_def isNumeric_def is_digit_def
        number_string_def nat_digits.simps validation_error_response_def verror_json_def
        certificate_with_def sample_certificate_def sample_request_def sample_env_def
        sample_app_def)

lemma createCertificate_text_id:
  "createCertificate (sample_env (Inr [])) sample_app
     (sample_request (certificate_with ''StudentId'' (Str ''abc'')))
   = \<lparr>reply = Responded
        \<lparr>res_status = BAD_REQUEST, res_headers = [],
         res_json = Obj [(''status'', Str ''Bad Request''),
                         (''reason'', Str ''VALIDATION_ERROR''),
                         (''message'', Str ''Invalid request body''),
                         (''timestamp'', Str ''2024-01-01T00:00:00.000Z''),
                         (''errors'',
                          Arr [Obj [(''value'', Str ''abc''),
                                    (''msg'', Str ''must be a number''),
                                    (''param'', Str ''StudentId''),
                                    (''location'', Str ''body'')]])]\<rparr>,
      queue_after = [], calls = []\<rparr>"
  by (simp add: createCertificate_def validationResult_def chain_errors_def createChains_def
        selectField_def prop_or_undefined_def toString_def isEmpty_def isNumeric_def is_digit_def
        number_string_def nat_digits.simps validation_error_response_def verror_json_def
        certificate_with_def sample_certificate_def sample_request_def sample_env_def
        sample_app_def)

lemma createCertificate_sample:
  "createCertificate (sample_env (Inr [])) sample_app (sample_request sample_certificate)
   = \<lparr>reply = Responded
        \<lparr>res_status = ACCEPTED, res_headers = [],
         res_json = Obj [(''status'', Str ''Accepted''), (''jobId'', Str ''1''),
                         (''timestamp'', Str ''2024-01-01T00:00:00.000Z'')]\<rparr>,
      queue_after = [(''Org1MSP'', ''IssueCertificate'',
           [Str ''abc123'', Str ''2024-01-01'', Num 7, Str ''Ana'', Str ''000'', Str ''Logic'',
            Num 40, Str ''2023-12-01'', Str ''UFAL''])],
      calls = [AddSubmitTransactionJob ''Org1MSP'' ''IssueCertificate''
           [Str ''abc123'', Str ''2024-01-01'', Num 7, Str ''Ana'', Str ''000'', Str ''Logic'',
            Num 40, Str ''2023-12-01'', Str ''UFAL'']]\<rparr>"
  by (simp add: createCertificate_def validationResult_def chain_errors_def createChains_def
        selectField_def prop_or_undefined_def toString_def isEmpty_def isNumeric_def is_digit_def
        number_string_def nat_digits.simps accepted_response_def createArgs_def Let_def
        sample_certificate_def sample_request_def sample_env_def sample_app_def)

text \<open>
  C8, as stated, fails on a wrongly typed field: a CertificateHash that is the number 0
  and not a string passes \<open>notEmpty()\<close>, the only validator of its chain, so the
  request is answered 202 Accepted and the job is enqueued.
\<close>

theorem createCertificate_number_hash_counterexample:
  "getProperty (req_body (sample_request (certificate_with ''CertificateHash'' (Num 0))))
     ''CertificateHash'' = Inr (Num 0)
   \<and> createCertificate (sample_env (Inr [])) sample_app
        (sample_request (certificate_with ''CertificateHash'' (Num 0)))
     = \<lparr>reply = Responded
          \<lparr>res_status = ACCEPTED, res_headers = [],
           res_json = Obj [(''status'', Str ''Accepted''), (''jobId'', Str ''1''),
                           (''timestamp'', Str ''2024-01-01T00:00:00.000Z'')]\<rparr>,
        queue_after = [(''Org1MSP'', ''IssueCertificate'',
           [Num 0, Str ''2024-01-01'', Num 7, Str ''Ana'', Str ''000'', Str ''Logic'',
            Num 40, Str ''2023-12-01'', Str ''UFAL''])],
        calls = [AddSubmitTransactionJob ''Org1MSP'' ''IssueCertificate''
           [Num 0, Str ''2024-01-01'', Num 7, Str ''Ana'', Str ''000'', Str ''Logic'',
            Num 40, Str ''2023-12-01'', Str ''UFAL'']]\<rparr>
   \<and> code_of ACCEPTED = 202"
  by (simp add: createCertificate_def validationResult_def chain_errors_def createChains_def
        selectField_def prop_or_undefined_def toString_def isEmpty_def isNumeric_def is_digit_def
        number_string_def nat_digits.simps accepted_response_def createArgs_def Let_def
        certificate_with_def sample_certificate_def sample_request_def sample_env_def
        sample_app_def)

theorem createCertificate_validation_witness:
  "prop_or_undefined (req_body (sample_request (certificate_with ''CertificateHash'' Undefined)))
      ''CertificateHash'' = Undefined
   \<and> createCertificate (sample_env (Inr [])) sample_app
        (sample_request (certificate_with ''CertificateHash'' Undefined))
     = \<lparr>reply = Responded
          \<lparr>res_status = BAD_REQUEST, res_headers = [],
           res_json = Obj [(''status'', Str ''Bad Request''),
                           (''reason'', Str ''VALIDATION_ERROR''),
                           (''message'', Str ''Invalid request body''),
                           (''timestamp'', Str ''2024-01-01T00:00:00.000Z''),
                           (''errors'',
                            Arr [Obj [(''msg'', Str ''must be a string''),
                                      (''param'', Str ''CertificateHash''),
                                      (''location'', Str ''body'')]])]\<rparr>,
        queue_after = [], calls = []\<rparr>
   \<and> code_of BAD_REQUEST = 400
   \<and> \<not> isNumeric (toString (prop_or_undefined
            (req_body (sample_request (certificate_with ''StudentId'' (Str ''abc'')))) ''StudentId''))
   \<and> createCertificate (sample_env (Inr [])) sample_app
        (sample_request (certificate_with ''StudentId'' (Str ''abc'')))
     = \<lparr>reply = Responded
          \<lparr>res_status = BAD_REQUEST, res_headers = [],
           res_json = Obj [(''status'', Str ''Bad Request''),
                           (''reason'', Str ''VALIDATION_ERROR''),
                           (''message'', Str ''Invalid request body''),
                           (''timestamp'', Str ''2024-01-01T00:00:00.000Z''),
                           (''errors'',
                            Arr [Obj [(''value'', Str ''abc''),
                                      (''msg'', Str ''must be a number''),
                                      (''param'', Str ''StudentId''),
                                      (''location'', Str ''body'')]])]\<rparr>,
        queue_after = [], calls = []\<rparr>
   \<and> calls (createCertificate (sample_env (Inr [])) sample_app (sample_request sample_certificate))
       \<noteq> []
   \<and> isNumeric (toString (prop_or_undefined (req_body (sample_request sample_certificate))
         ''CourseHours''))
   \<and> addSubmitTransactionJob (sample_env (Inr [])) (jobq sample_app)
        (user (sample_request sample_certificate)) ''IssueCertificate''
        (createArgs (prop_or_undefined (req_body (sample_request sample_certificate)) ''CertificateHash'')
           (req_body (sample_request sample_certificate)))
     = (Inr ''1'', [(''Org1MSP'', ''IssueCertificate'',
           [Str ''abc123'', Str ''2024-01-01'', Num 7, Str ''Ana'', Str ''000'', Str ''Logic'',
            Num 40, Str ''2023-12-01'', Str ''UFAL''])])
   \<and> createCertificate (sample_env (Inr [])) sample_app (sample_request sample_certificate)
     = \<lparr>reply = Responded
          \<lparr>res_status = ACCEPTED, res_headers = [],
           res_json = Obj [(''status'', Str ''Accepted''), (''jobId'', Str ''1''),
                           (''timestamp'', Str ''2024-01-01T00:00:00.000Z'')]\<rparr>,
        queue_after = [(''Org1MSP'', ''IssueCertificate'',
           [Str ''abc123'', Str ''2024-01-01'', Num 7, Str ''Ana'', Str ''000'', Str ''Logic'',
            Num 40, Str ''2023-12-01'', Str ''UFAL''])],
        calls = [AddSubmitTransactionJob ''Org1MSP'' ''IssueCertificate''
           [Str ''abc123'', Str ''2024-01-01'', Num 7, Str ''Ana'', Str ''000'', Str ''Logic'',
            Num 40, Str ''2023-12-01'', Str ''UFAL'']]\<rparr>
   \<and> code_of ACCEPTED = 202"
proof -
  let ?E = "sample_env (Inr []) :: sample_queue env"
  let ?missing = "sample_request (certificate_with ''CertificateHash'' Undefined)"
  let ?text = "sample_request (certificate_with ''StudentId'' (Str ''abc''))"
  let ?good = "sample_request sample_certificate"
  have m: "prop_or_undefined (req_body ?missing) ''CertificateHash'' = Undefined"
    by (simp add: prop_or_undefined_def certificate_with_def sample_certificate_def
          sample_request_def)
  have "\<exists>r. createCertificate ?E sample_app ?missing =
               \<lparr>reply = Responded r, queue_after = jobq sample_app, calls = []\<rparr> \<and>
            res_status r = BAD_REQUEST \<and> code_of (res_status r) = 400 \<and>
            getProperty (res_json r) ''reason'' = Inr (Str ''VALIDATION_ERROR'')"
    using createCertificate_validation [of ?missing ?E sample_app "''CertificateHash''"] m
    by simp
  then have m400: "code_of BAD_REQUEST = 400"
    by auto
  have t: "\<not> isNumeric (toString (prop_or_undefined (req_body ?text) ''StudentId''))"
    by (simp add: prop_or_undefined_def certificate_with_def sample_certificate_def
          sample_request_def toString_def isNumeric_def is_digit_def)
  have g1: "calls (createCertificate ?E sample_app ?good) \<noteq> []"
    by (simp add: createCertificate_sample)
  have g2: "isNumeric (toString (prop_or_undefined (req_body ?good) ''CourseHours''))"
    using createCertificate_validation [of ?good ?E sample_app "''CourseHours''"] g1
    by simp
  have g3: "addSubmitTransactionJob ?E (jobq sample_app) (user ?good) ''IssueCertificate''
        (createArgs (prop_or_undefined (req_body ?good) ''CertificateHash'') (req_body ?good))
     = (Inr ''1'', [(''Org1MSP'', ''IssueCertificate'',
           [Str ''abc123'', Str ''2024-01-01'', Num 7, Str ''Ana'', Str ''000'', Str ''Logic'',
            Num 40, Str ''2023-12-01'', Str ''UFAL''])])"
    by (simp add: createArgs_def prop_or_undefined_def sample_certificate_def
          sample_request_def sample_env_def sample_app_def)
  from m m400 t g1 g2 g3 show ?thesis
    by (simp only: createCertificate_missing_hash createCertificate_text_id
          createCertificate_sample code_of.simps simp_thms)
qed

section \<open>Properties of the retry policy\<close>

text \<open>
  The backoff delay never exceeds the cap, and with jitter it exceeds it by at most the
  jitter bound.
\<close>

lemma backoffDelay_capped: "backoffDelay p a \<le> cap p"
  unfolding backoffDelay_def by (rule min.cobounded1)

lemma delayWithJitter_bounded: "delayWithJitter p a draw \<le> cap p + jitterBound p"
  unfolding delayWithJitter_def
  by (rule add_mono [OF backoffDelay_capped min.cobounded2])

text \<open>
  The delay grows with the attempt count when the multiplier is at least 1. The
  specification gives the multiplier no range: with a multiplier of zero the delay of
  attempt 0 is the base delay and every later one is zero.
\<close>

lemma backoffDelay_monotone:
  assumes "1 \<le> multiplier p" and "a1 \<le> a2"
  shows "backoffDelay p a1 \<le> backoffDelay p a2"
proof -
  from assms have "multiplier p ^ a1 \<le> multiplier p ^ a2"
    by (simp add: power_increasing)
  then have le: "baseDelay p * multiplier p ^ a1 \<le> baseDelay p * multiplier p ^ a2"
    by (rule mult_le_mono2)
  show ?thesis
    unfolding backoffDelay_def by (rule min.mono [OF order_refl le])
qed

lemma backoffDelay_zero_multiplier:
  "backoffDelay zero_multiplier_policy 0 = 100 \<and> backoffDelay zero_multiplier_policy 1 = 0"
  by (simp add: backoffDelay_def zero_multiplier_policy_def sample_policy_def)

section \<open>Properties of the Job Store\<close>

text \<open>
  C6. For a job in state \<open>active\<close>, a second \<open>completeWithResult\<close> (or
  \<open>completeWithError\<close>) with the arguments of the first signals no error and returns
  the store the first call left.
\<close>

theorem complete_idempotent:
  assumes "jobId < length s" and "state (s ! jobId) = Active"
  shows "(\<exists>s1. completeWithResult t1 jobId tx pl s = Inr s1 \<and>
               completeWithResult t2 jobId tx pl s1 = Inr s1) \<and>
         (\<exists>s1. completeWithError t1 jobId detail s = Inr s1 \<and>
               completeWithError t2 jobId detail s1 = Inr s1)"
  using assms by (simp add: completeWithResult_def completeWithError_def Let_def)

theorem complete_idempotent_witness:
  "0 < length [sample_job Active 0 1 0] \<and> state ([sample_job Active 0 1 0] ! 0) = Active
   \<and> completeWithResult 5 0 ''tx1'' ''ok'' [sample_job Active 0 1 0]
       = Inr [(sample_job Completed 0 5 0)\<lparr>txId := Some ''tx1'', payload := Some ''ok''\<rparr>]
   \<and> completeWithResult 9 0 ''tx1'' ''ok''
         [(sample_job Completed 0 5 0)\<lparr>txId := Some ''tx1'', payload := Some ''ok''\<rparr>]
       = Inr [(sample_job Completed 0 5 0)\<lparr>txId := Some ''tx1'', payload := Some ''ok''\<rparr>]
   \<and> completeWithError 5 0 (ChaincodeRejected, ''no'') [sample_job Active 0 1 0]
       = Inr [(sample_job Failed 0 5 0)\<lparr>lastError := Some (ChaincodeRejected, ''no'')\<rparr>]
   \<and> completeWithError 9 0 (ChaincodeRejected, ''no'')
         [(sample_job Failed 0 5 0)\<lparr>lastError := Some (ChaincodeRejected, ''no'')\<rparr>]
       = Inr [(sample_job Failed 0 5 0)\<lparr>lastError := Some (ChaincodeRejected, ''no'')\<rparr>]"
  using complete_idempotent [of 0 "[sample_job Active 0 1 0]" 5 "''tx1''" "''ok''" 9
          "(ChaincodeRejected, ''no'')"]
  by (simp add: completeWithResult_def completeWithError_def sample_job_def Let_def)

lemma first_index_Some:
  "first_index P xs = Some i \<Longrightarrow> i < length xs \<and> P (xs ! i)"
  by (induction xs arbitrary: i) (auto split: if_splits)

lemma apply_op_length: "length s \<le> length (apply_op now op s)"
  by (cases op)
     (auto simp: enqueue_def claimNext_def completeWithResult_def completeWithError_def
        requeueWithBackoff_def recoveryScan_def Let_def split: option.splits)

lemma apply_op_new:
  assumes "length s \<le> i" and "i < length (apply_op now op s)"
  shows "state (apply_op now op s ! i) = Queued"
  using assms
  by (cases op)
     (auto simp: enqueue_def claimNext_def completeWithResult_def completeWithError_def
        requeueWithBackoff_def recoveryScan_def newJob_def Let_def nth_append
        split: option.splits if_splits)

lemma apply_op_allowed:
  assumes "i < length s"
  shows "state (apply_op now op s ! i) = state (s ! i) \<or>
         allowed (state (s ! i)) (state (apply_op now op s ! i))"
proof (cases op)
  case ClaimNext
  show ?thesis
  proof (cases "first_index (claimable now) s")
    case None
    with ClaimNext show ?thesis by (simp add: claimNext_def)
  next
    case (Some k)
    from first_index_Some [OF Some] have "k < length s" and "state (s ! k) = Queued"
      by (simp_all add: claimable_def)
    with ClaimNext Some assms show ?thesis
      by (cases "i = k") (simp_all add: claimNext_def Let_def)
  qed
next
  case (Enqueue r ident fn args)
  with assms show ?thesis by (simp add: enqueue_def nth_append)
next
  case (CompleteWithResult k tx pl)
  with assms show ?thesis
    by (cases "i = k") (auto simp: completeWithResult_def Let_def)
next
  case (CompleteWithError k d)
  with assms show ?thesis
    by (cases "i = k") (auto simp: completeWithError_def Let_def)
next
  case (RequeueWithBackoff k d)
  with assms show ?thesis
    by (cases "i = k") (auto simp: requeueWithBackoff_def Let_def)
next
  case (Get k)
  then show ?thesis by simp
next
  case RecoveryScan
  with assms show ?thesis by (simp add: recoveryScan_def)
qed

lemma apply_op_terminal:
  assumes "i < length s" and "state (s ! i) = Completed \<or> state (s ! i) = Failed"
  shows "apply_op now op s ! i = s ! i"
proof (cases op)
  case ClaimNext
  show ?thesis
  proof (cases "first_index (claimable now) s")
    case None
    with ClaimNext show ?thesis by (simp add: claimNext_def)
  next
    case (Some k)
    from first_index_Some [OF Some] have "k < length s" and "state (s ! k) = Queued"
      by (simp_all add: claimable_def)
    with ClaimNext Some assms show ?thesis
      by (cases "i = k") (auto simp: claimNext_def Let_def)
  qed
next
  case (Enqueue r ident fn args)
  with assms show ?thesis by (simp add: enqueue_def nth_append)
next
  case (CompleteWithResult k tx pl)
  with assms show ?thesis
    by (cases "i = k") (auto simp: completeWithResult_def Let_def)
next
  case (CompleteWithError k d)
  with assms show ?thesis
    by (cases "i = k") (auto simp: completeWithError_def Let_def)
next
  case (RequeueWithBackoff k d)
  with assms show ?thesis
    by (cases "i = k") (auto simp: requeueWithBackoff_def Let_def)
next
  case (Get k)
  then show ?thesis by simp
next
  case RecoveryScan
  with assms show ?thesis by (auto simp: recoveryScan_def)
qed

lemma apply_op_reentry:
  assumes "i < length s" and "state (s ! i) = Active" and "state (apply_op now op s ! i) = Queued"
  shows "(\<exists>delay. op = RequeueWithBackoff i delay) \<and>
           attempts (apply_op now op s ! i) = attempts (s ! i) + 1 \<or>
         op = RecoveryScan \<and> attempts (apply_op now op s ! i) = attempts (s ! i)"
proof (cases op)
  case ClaimNext
  show ?thesis
  proof (cases "first_index (claimable now) s")
    case None
    with ClaimNext assms show ?thesis by (simp add: claimNext_def)
  next
    case (Some k)
    from first_index_Some [OF Some] have "k < length s" and "state (s ! k) = Queued"
      by (simp_all add: claimable_def)
    with ClaimNext Some assms show ?thesis
      by (cases "i = k") (auto simp: claimNext_def Let_def)
  qed
next
  case (Enqueue r ident fn args)
  with assms show ?thesis by (cases r) (simp_all add: enqueue_def nth_append)
next
  case (CompleteWithResult k tx pl)
  with assms show ?thesis
    by (cases "i = k") (auto simp: completeWithResult_def Let_def split: if_splits)
next
  case (CompleteWithError k d)
  with assms show ?thesis
    by (cases "i = k") (auto simp: completeWithError_def Let_def split: if_splits)
next
  case (RequeueWithBackoff k d)
  with assms show ?thesis
    by (cases "i = k") (auto simp: requeueWithBackoff_def Let_def split: if_splits)
next
  case (Get k)
  with assms show ?thesis by simp
next
  case RecoveryScan
  with assms show ?thesis by (simp add: recoveryScan_def)
qed

lemma state_trace_Nil: "state_trace i [] = []"
  by (simp add: state_trace_def)

lemma state_trace_Cons:
  "state_trace i (s # ss) =
     (if i < length s then state (s ! i) # state_trace i ss else state_trace i ss)"
  by (simp add: state_trace_def)

lemma trace_existing:
  assumes "i < length s"
  shows "hd (state_trace i (stores s ops)) = state (s ! i) \<and>
         state_trace i (stores s ops) \<noteq> [] \<and>
         successively (\<lambda>a b. a = b \<or> allowed a b) (state_trace i (stores s ops))"
  using assms
proof (induction ops arbitrary: s)
  case Nil
  then show ?case by (simp add: state_trace_Cons state_trace_Nil)
next
  case (Cons x ops)
  let ?s' = "apply_op (fst x) (snd x) s"
  from Cons.prems apply_op_length [of s "fst x" "snd x"] have i': "i < length ?s'"
    by simp
  note IH = Cons.IH [OF i']
  from apply_op_allowed [OF Cons.prems, of "fst x" "snd x"] IH Cons.prems show ?case
    by (auto simp: state_trace_Cons successively_Cons)
qed

lemma trace_general:
  "(state_trace i (stores s ops) \<noteq> [] \<longrightarrow>
      hd (state_trace i (stores s ops)) = (if i < length s then state (s ! i) else Queued)) \<and>
   successively (\<lambda>a b. a = b \<or> allowed a b) (state_trace i (stores s ops))"
proof (induction ops arbitrary: s)
  case Nil
  then show ?case by (simp add: state_trace_Cons state_trace_Nil)
next
  case (Cons x ops)
  show ?case
  proof (cases "i < length s")
    case True
    from trace_existing [OF True, of "x # ops"] True show ?thesis by simp
  next
    case False
    let ?s' = "apply_op (fst x) (snd x) s"
    have new: "i < length ?s' \<Longrightarrow> state (?s' ! i) = Queued"
      using apply_op_new [of s i "fst x" "snd x"] False by simp
    from Cons.IH [of ?s'] new False show ?thesis
      by (simp add: state_trace_Cons)
  qed
qed

lemma allowed_chain_prefix:
  "(successively allowed (Queued # xs) \<longrightarrow> after_queued xs) \<and>
   (successively allowed (Active # xs) \<longrightarrow> after_active xs)"
proof (induction xs)
  case Nil
  show ?case by simp
next
  case (Cons x xs)
  show ?case
  proof (cases x)
    case Queued
    with Cons show ?thesis by simp
  next
    case Active
    with Cons show ?thesis by simp
  next
    case Completed
    then show ?thesis by (cases xs) simp_all
  next
    case Failed
    then show ?thesis by (cases xs) simp_all
  qed
qed

lemma lifecycle_prefix_chain:
  assumes "xs \<noteq> [] \<longrightarrow> hd xs = Queued" and "successively allowed xs"
  shows "lifecycle_prefix xs"
proof (cases xs)
  case Nil
  then show ?thesis by simp
next
  case (Cons x ys)
  with assms allowed_chain_prefix [of ys] show ?thesis by simp
qed

lemma successively_both:
  "successively P xs \<Longrightarrow> successively Q xs \<Longrightarrow> successively (\<lambda>a b. P a b \<and> Q a b) xs"
  by (induction P xs rule: successively.induct) simp_all

lemma transition_sequence_allowed:
  "successively allowed (transition_sequence i (stores s ops))"
proof -
  let ?t = "state_trace i (stores s ops)"
  have "successively (\<lambda>a b. a = b \<or> allowed a b) (remdups_adj ?t)"
    using trace_general [of i s ops] by (simp add: successively_remdups_adjI)
  moreover have "successively (\<noteq>) (remdups_adj ?t)"
    using distinct_adj_remdups_adj [of ?t] by (simp add: distinct_adj_def)
  ultimately have "successively (\<lambda>a b. (a = b \<or> allowed a b) \<and> a \<noteq> b) (remdups_adj ?t)"
    by (rule successively_both)
  then show ?thesis
    unfolding transition_sequence_def by (rule successively_mono) auto
qed

text \<open>
  C1, as stated, fails on the recovery scan: it takes an \<open>active\<close> job back to
  \<open>queued\<close> with the attempt count it had.
\<close>

theorem recovery_keeps_attempts_counterexample:
  "transition_sequence 0 (stores [] sample_recovery) = [Queued, Active, Queued]
   \<and> state ([sample_job Active 0 1 0] ! 0) = Active
   \<and> state (apply_op 2 RecoveryScan [sample_job Active 0 1 0] ! 0) = Queued
   \<and> attempts ([sample_job Active 0 1 0] ! 0) = 0
   \<and> attempts (apply_op 2 RecoveryScan [sample_job Active 0 1 0] ! 0) = 0
   \<and> last (stores [] sample_recovery) = [sample_job Queued 0 2 0]"
  by (simp add: sample_recovery_def transition_sequence_def state_trace_def enqueue_def
        newJob_def claimNext_def claimable_def recoveryScan_def sample_job_def Let_def)

text \<open>
  C1, amended. For every job and every sequence of Job Store operations, the recovery
  scan among them, from the empty store, the state transition sequence of the job is a
  prefix of \<open>queued \<rightarrow> active \<rightarrow> (queued \<rightarrow> active)* \<rightarrow> {completed|failed}\<close>; no
  operation changes a job that is \<open>completed\<close> or \<open>failed\<close>; and an operation that
  takes a job from \<open>active\<close> back to \<open>queued\<close> is either \<open>requeueWithBackoff\<close> on that
  job, which increments its attempt count, or the recovery scan, which preserves it.
\<close>

theorem job_lifecycle:
  "lifecycle_prefix (transition_sequence i (stores [] ops)) \<and>
   (i < length s \<and> (state (s ! i) = Completed \<or> state (s ! i) = Failed) \<longrightarrow>
      apply_op now op s ! i = s ! i) \<and>
   (i < length s \<and> state (s ! i) = Active \<and> state (apply_op now op s ! i) = Queued \<longrightarrow>
      (\<exists>delay. op = RequeueWithBackoff i delay) \<and>
        attempts (apply_op now op s ! i) = attempts (s ! i) + 1 \<or>
      op = RecoveryScan \<and> attempts (apply_op now op s ! i) = attempts (s ! i))"
proof -
  have "transition_sequence i (stores [] ops) \<noteq> [] \<longrightarrow>
          hd (transition_sequence i (stores [] ops)) = Queued"
    using trace_general [of i "[]" ops] by (simp add: transition_sequence_def)
  then have "lifecycle_prefix (transition_sequence i (stores [] ops))"
    using transition_sequence_allowed [of i "[]" ops] by (rule lifecycle_prefix_chain)
  with apply_op_terminal [of i s now op] apply_op_reentry [of i s now op] show ?thesis
    by blast
qed

lemma sample_ops_trace:
  "transition_sequence 0 (stores [] sample_ops) = [Queued, Active, Queued, Active, Completed]"
  by (simp add: sample_ops_def transition_sequence_def state_trace_def enqueue_def newJob_def
        claimNext_def claimable_def requeueWithBackoff_def completeWithResult_def
        completeWithError_def recoveryScan_def Let_def)

theorem job_lifecycle_witness:
  "transition_sequence 0 (stores [] sample_ops) = [Queued, Active, Queued, Active, Completed]
   \<and> lifecycle_prefix (transition_sequence 0 (stores [] sample_ops))
   \<and> 0 < length [sample_job Completed 1 103 102]
   \<and> state ([sample_job Completed 1 103 102] ! 0) = Completed
   \<and> apply_op 106 RecoveryScan [sample_job Completed 1 103 102] ! 0
       = [sample_job Completed 1 103 102] ! 0
   \<and> state ([sample_job Active 0 1 0] ! 0) = Active
   \<and> state (apply_op 2 (RequeueWithBackoff 0 100) [sample_job Active 0 1 0] ! 0) = Queued
   \<and> attempts (apply_op 2 (RequeueWithBackoff 0 100) [sample_job Active 0 1 0] ! 0)
       = attempts ([sample_job Active 0 1 0] ! 0) + 1
   \<and> state (apply_op 2 RecoveryScan [sample_job Active 0 1 0] ! 0) = Queued
   \<and> attempts (apply_op 2 RecoveryScan [sample_job Active 0 1 0] ! 0)
       = attempts ([sample_job Active 0 1 0] ! 0)"
  using job_lifecycle [of 0 sample_ops "[sample_job Completed 1 103 102]" 106 RecoveryScan]
        job_lifecycle [of 0 sample_ops "[sample_job Active 0 1 0]" 2 "RequeueWithBackoff 0 100"]
        job_lifecycle [of 0 sample_ops "[sample_job Active 0 1 0]" 2 RecoveryScan]
  by (simp add: sample_ops_trace sample_job_def requeueWithBackoff_def recoveryScan_def)

section \<open>Properties of the system of workers\<close>

lemma job_ok_no_error:
  assumes "job_ok p j" and "state j \<noteq> Failed"
  shows "lastError j = None"
  using assms by (cases "lastError j") (simp_all add: job_ok_def)

lemma job_ok_changed:
  assumes "job_ok p j" and "state j \<noteq> Failed" and "attempts j' = attempts j"
    and "lastError j' = lastError j"
  shows "job_ok p j'"
  using assms job_ok_no_error [OF assms(1,2)] by (simp add: job_ok_def)

lemma jobs_ok_update:
  assumes "jobs_ok p s" and "job_ok p j"
  shows "jobs_ok p (s[k := j])"
proof -
  have "set (s[k := j]) \<subseteq> insert j (set s)"
    by (rule set_update_subset_insert)
  with assms show ?thesis
    unfolding jobs_ok_def by blast
qed

lemma jobs_ok_nth: "jobs_ok p s \<Longrightarrow> k < length s \<Longrightarrow> job_ok p (s ! k)"
  by (simp add: jobs_ok_def)

lemma jobs_ok_enqueue:
  assumes "jobs_ok p s"
  shows "jobs_ok p (apply_op now (Enqueue r ident fn args) s)"
  using assms by (cases r) (simp_all add: enqueue_def jobs_ok_def job_ok_def newJob_def)

lemma jobs_ok_recoveryScan:
  assumes "jobs_ok p s"
  shows "jobs_ok p (recoveryScan now s)"
proof -
  have "job_ok p (j\<lparr>state := Queued, updatedAt := now\<rparr>)"
    if "job_ok p j" and "state j = Active" for j
    using that(2) by (intro job_ok_changed [OF that(1)]) simp_all
  with assms show ?thesis
    by (auto simp: jobs_ok_def recoveryScan_def)
qed

lemma claimNext_cases:
  "claimNext now s = (None, s) \<or>
   (\<exists>k. k < length s \<and> state (s ! k) = Queued \<and>
        claimNext now s = (Some (k, (s ! k)\<lparr>state := Active, updatedAt := now\<rparr>),
                           s[k := (s ! k)\<lparr>state := Active, updatedAt := now\<rparr>]))"
proof (cases "first_index (claimable now) s")
  case None
  then show ?thesis by (simp add: claimNext_def)
next
  case (Some k)
  from first_index_Some [OF Some] have "k < length s" and "state (s ! k) = Queued"
    by (simp_all add: claimable_def)
  with Some show ?thesis by (simp add: claimNext_def Let_def)
qed

lemma resolve_held:
  assumes "k < length s" and "s ! k = j" and "state j = Active"
  shows "resolve p now draw (k, j) out s = Inr (s[k :=
     (case out of
        Committed tx pl \<Rightarrow> j\<lparr>state := Completed, txId := Some tx, payload := Some pl, updatedAt := now\<rparr>
      | SubmitFailed e msg \<Rightarrow>
          if e \<in> retryable p \<and> attempts j < retryCeiling p e then
            j\<lparr>state := Queued, attempts := attempts j + 1,
              eligibleAt := now + delayWithJitter p (attempts j + 1) draw, updatedAt := now\<rparr>
          else j\<lparr>state := Failed, lastError := Some (e, msg), updatedAt := now\<rparr>)])"
  using assms
  by (cases out)
     (simp_all add: resolve_def completeWithResult_def completeWithError_def
        requeueWithBackoff_def Let_def)

lemma held_okD1:
  "held_ok sys \<Longrightarrow> holding sys w = Some c \<Longrightarrow>
     fst c < length (jobStore sys) \<and> jobStore sys ! fst c = snd c \<and> state (snd c) = Active"
  unfolding held_ok_def by blast

lemma held_okD2:
  "held_ok sys \<Longrightarrow> holding sys w = Some c \<Longrightarrow> holding sys w' = Some c' \<Longrightarrow>
     fst c = fst c' \<Longrightarrow> w = w'"
  unfolding held_ok_def by blast

lemma held_okI:
  assumes "\<And>w c. holding sys w = Some c \<Longrightarrow>
             fst c < length (jobStore sys) \<and> jobStore sys ! fst c = snd c \<and> state (snd c) = Active"
    and "\<And>w w' c c'. holding sys w = Some c \<Longrightarrow> holding sys w' = Some c' \<Longrightarrow>
             fst c = fst c' \<Longrightarrow> w = w'"
  shows "held_ok sys"
  unfolding held_ok_def using assms by blast

lemma step_Produce_inv:
  assumes h: "held_ok sys" and j: "jobs_ok p (jobStore sys)"
  shows "held_ok (step p now (Produce r ident fn args) sys) \<and>
         jobs_ok p (jobStore (step p now (Produce r ident fn args) sys))"
proof
  let ?sys' = "step p now (Produce r ident fn args) sys"
  have hold: "holding ?sys' = holding sys"
    by simp
  have store: "jobStore ?sys' = jobStore sys \<or>
               jobStore ?sys' = jobStore sys @ [newJob now ident fn args]"
    by (cases r) (simp_all add: enqueue_def)
  show "held_ok ?sys'"
  proof (rule held_okI)
    fix w c assume "holding ?sys' w = Some c"
    then have "holding sys w = Some c" by simp
    from held_okD1 [OF h this] store
    show "fst c < length (jobStore ?sys') \<and> jobStore ?sys' ! fst c = snd c \<and> state (snd c) = Active"
      by (auto simp: nth_append)
  next
    fix w w' c c'
    assume "holding ?sys' w = Some c" "holding ?sys' w' = Some c'" "fst c = fst c'"
    then show "w = w'"
      using held_okD2 [OF h, of w c w' c'] by simp
  qed
  show "jobs_ok p (jobStore ?sys')"
    using jobs_ok_enqueue [OF j] by simp
qed

lemma step_Poll_inv:
  assumes h: "held_ok sys" and j: "jobs_ok p (jobStore sys)"
  shows "held_ok (step p now (Poll w) sys) \<and> jobs_ok p (jobStore (step p now (Poll w) sys))"
proof (cases "holding sys w")
  case (Some c)
  with assms show ?thesis by simp
next
  case None
  let ?s = "jobStore sys"
  from claimNext_cases [of now ?s] show ?thesis
  proof
    assume "claimNext now ?s = (None, ?s)"
    with None assms show ?thesis by simp
  next
    assume "\<exists>k. k < length ?s \<and> state (?s ! k) = Queued \<and>
        claimNext now ?s = (Some (k, (?s ! k)\<lparr>state := Active, updatedAt := now\<rparr>),
                           ?s[k := (?s ! k)\<lparr>state := Active, updatedAt := now\<rparr>])"
    then obtain k where k: "k < length ?s" and q: "state (?s ! k) = Queued"
      and c: "claimNext now ?s = (Some (k, (?s ! k)\<lparr>state := Active, updatedAt := now\<rparr>),
                           ?s[k := (?s ! k)\<lparr>state := Active, updatedAt := now\<rparr>])"
      by blast
    let ?j = "(?s ! k)\<lparr>state := Active, updatedAt := now\<rparr>"
    let ?sys' = "\<lparr>jobStore = ?s[k := ?j], holding = (holding sys)(w := Some (k, ?j))\<rparr>"
    have st: "step p now (Poll w) sys = ?sys'"
      using None c by simp
    have other: "fst c' \<noteq> k" if "holding sys w' = Some c'" for w' c'
    proof
      assume "fst c' = k"
      with held_okD1 [OF h that] q show False by simp
    qed
    have "held_ok ?sys'"
    proof (rule held_okI)
      fix v c assume hv: "holding ?sys' v = Some c"
      show "fst c < length (jobStore ?sys') \<and> jobStore ?sys' ! fst c = snd c \<and> state (snd c) = Active"
      proof (cases "v = w")
        case True
        with hv have "c = (k, ?j)" by simp
        with k show ?thesis by simp
      next
        case False
        with hv have old: "holding sys v = Some c" by simp
        from held_okD1 [OF h old] other [OF old] show ?thesis by simp
      qed
    next
      fix v v' c c'
      assume hv: "holding ?sys' v = Some c" and hv': "holding ?sys' v' = Some c'"
        and eq: "fst c = fst c'"
      show "v = v'"
      proof (cases "v = w")
        case True
        with hv have ck: "fst c = k" by auto
        show ?thesis
        proof (rule ccontr)
          assume "v \<noteq> v'"
          with True hv' have "holding sys v' = Some c'" by simp
          from other [OF this] ck eq show False by simp
        qed
      next
        case False
        with hv have old: "holding sys v = Some c" by simp
        show ?thesis
        proof (cases "v' = w")
          case True
          with hv' have "fst c' = k" by auto
          with other [OF old] eq show ?thesis by simp
        next
          case False
          with hv' have "holding sys v' = Some c'" by simp
          from held_okD2 [OF h old this eq] show ?thesis .
        qed
      qed
    qed
    moreover have "jobs_ok p (?s[k := ?j])"
    proof (rule jobs_ok_update [OF j])
      from q show "job_ok p ?j"
        by (intro job_ok_changed [OF jobs_ok_nth [OF j k]]) simp_all
    qed
    ultimately show ?thesis unfolding st by simp
  qed
qed

lemma step_Submit_store:
  assumes h: "held_ok sys" and c: "holding sys w = Some c"
  shows "step p now (SubmitReturns w out draw) sys =
     \<lparr>jobStore = (jobStore sys)[fst c :=
        (case out of
           Committed tx pl \<Rightarrow>
             (snd c)\<lparr>state := Completed, txId := Some tx, payload := Some pl, updatedAt := now\<rparr>
         | SubmitFailed e msg \<Rightarrow>
             if e \<in> retryable p \<and> attempts (snd c) < retryCeiling p e then
               (snd c)\<lparr>state := Queued, attempts := attempts (snd c) + 1,
                 eligibleAt := now + delayWithJitter p (attempts (snd c) + 1) draw,
                 updatedAt := now\<rparr>
             else (snd c)\<lparr>state := Failed, lastError := Some (e, msg), updatedAt := now\<rparr>)],
      holding = (holding sys)(w := None)\<rparr>"
proof -
  from held_okD1 [OF h c] have "fst c < length (jobStore sys)"
    and "jobStore sys ! fst c = snd c" and "state (snd c) = Active"
    by simp_all
  from resolve_held [OF this, of p now draw out] c show ?thesis
    by simp
qed

lemma step_Submit_inv:
  assumes h: "held_ok sys" and j: "jobs_ok p (jobStore sys)"
  shows "held_ok (step p now (SubmitReturns w out draw) sys) \<and>
         jobs_ok p (jobStore (step p now (SubmitReturns w out draw) sys))"
proof (cases "holding sys w")
  case None
  with assms show ?thesis by simp
next
  case (Some c)
  let ?s = "jobStore sys"
  let ?k = "fst c"
  let ?jb = "snd c"
  from held_okD1 [OF h Some] have k: "?k < length ?s" and eq: "?s ! ?k = ?jb"
    and act: "state ?jb = Active"
    by simp_all
  let ?j' = "(case out of
           Committed tx pl \<Rightarrow>
             ?jb\<lparr>state := Completed, txId := Some tx, payload := Some pl, updatedAt := now\<rparr>
         | SubmitFailed e msg \<Rightarrow>
             if e \<in> retryable p \<and> attempts ?jb < retryCeiling p e then
               ?jb\<lparr>state := Queued, attempts := attempts ?jb + 1,
                 eligibleAt := now + delayWithJitter p (attempts ?jb + 1) draw,
                 updatedAt := now\<rparr>
             else ?jb\<lparr>state := Failed, lastError := Some (e, msg), updatedAt := now\<rparr>)"
  let ?sys' = "\<lparr>jobStore = ?s[?k := ?j'], holding = (holding sys)(w := None)\<rparr>"
  have st: "step p now (SubmitReturns w out draw) sys = ?sys'"
    by (rule step_Submit_store [OF h Some])
  have other: "fst c' \<noteq> ?k" if "holding sys w' = Some c'" and "w' \<noteq> w" for w' c'
  proof
    assume "fst c' = ?k"
    from held_okD2 [OF h that(1) Some this] that(2) show False by simp
  qed
  have "held_ok ?sys'"
  proof (rule held_okI)
    fix v c' assume hv: "holding ?sys' v = Some c'"
    then have vw: "v \<noteq> w" by (auto split: if_splits)
    with hv have old: "holding sys v = Some c'" by simp
    from held_okD1 [OF h old] other [OF old vw]
    show "fst c' < length (jobStore ?sys') \<and> jobStore ?sys' ! fst c' = snd c' \<and> state (snd c') = Active"
      by simp
  next
    fix v v' c1 c2
    assume hv: "holding ?sys' v = Some c1" and hv': "holding ?sys' v' = Some c2"
      and e: "fst c1 = fst c2"
    from hv have "v \<noteq> w" by (auto split: if_splits)
    with hv have o1: "holding sys v = Some c1" by simp
    from hv' have "v' \<noteq> w" by (auto split: if_splits)
    with hv' have o2: "holding sys v' = Some c2" by simp
    from held_okD2 [OF h o1 o2 e] show "v = v'" .
  qed
  moreover have "jobs_ok p (?s[?k := ?j'])"
  proof (rule jobs_ok_update [OF j])
    from jobs_ok_nth [OF j k] eq have ok: "job_ok p ?jb"
      by simp
    from act have nf: "state ?jb \<noteq> Failed"
      by simp
    have le: "retryCeiling p e \<le> maximumAttempts p" for e
      by (simp add: retryCeiling_def)
    show "job_ok p ?j'"
    proof (cases out)
      case (Committed tx pl)
      then show ?thesis
        by (simp add: job_ok_changed [OF ok nf])
    next
      case (SubmitFailed e msg)
      from ok have b: "attempts ?jb \<le> maximumAttempts p"
        by (simp add: job_ok_def)
      from job_ok_no_error [OF ok nf] have n: "lastError ?jb = None" .
      show ?thesis
      proof (cases "e \<in> retryable p \<and> attempts ?jb < retryCeiling p e")
        case True
        with le [of e] have "attempts ?jb + 1 \<le> maximumAttempts p"
          by simp
        with SubmitFailed True n show ?thesis
          by (simp add: job_ok_def)
      next
        case False
        with SubmitFailed b show ?thesis
          by (auto simp: job_ok_def)
      qed
    qed
  qed
  ultimately show ?thesis unfolding st by simp
qed

lemma step_Restart_inv:
  assumes "jobs_ok p (jobStore sys)"
  shows "held_ok (step p now Restart sys) \<and> jobs_ok p (jobStore (step p now Restart sys))"
  using jobs_ok_recoveryScan [OF assms] by (simp add: held_ok_def)

lemma step_inv:
  assumes "held_ok sys" and "jobs_ok p (jobStore sys)"
  shows "held_ok (step p now ev sys) \<and> jobs_ok p (jobStore (step p now ev sys))"
  using assms step_Produce_inv step_Poll_inv step_Submit_inv step_Restart_inv
  by (cases ev) blast+

lemma run_inv:
  assumes "held_ok sys" and "jobs_ok p (jobStore sys)"
  shows "held_ok (run p sys es) \<and> jobs_ok p (jobStore (run p sys es))"
  using assms
proof (induction es arbitrary: sys)
  case Nil
  then show ?case by simp
next
  case (Cons x es)
  from step_inv [OF Cons.prems, of "fst x" "snd x"] Cons.IH show ?case
    by simp
qed

lemma reachable_inv:
  "held_ok (run p initial es) \<and> jobs_ok p (jobStore (run p initial es))"
  by (rule run_inv) (simp_all add: initial_def held_ok_def jobs_ok_def)

lemma run_append: "run p sys (es @ es') = run p (run p sys es) es'"
  by (induction es arbitrary: sys) simp_all

lemma sample_first_claim_run:
  "run p initial sample_first_claim =
     \<lparr>jobStore = [sample_job Active 0 1 0],
      holding = (\<lambda>w. None)(0 := Some (0, sample_job Active 0 1 0))\<rparr>"
  by (simp add: sample_first_claim_def initial_def enqueue_def newJob_def claimNext_def
        claimable_def sample_job_def Let_def)

lemma sample_second_claim_run:
  "run sample_policy initial sample_second_claim =
     \<lparr>jobStore = [sample_job Active 1 300 205],
      holding = (\<lambda>w. None)(0 := Some (0, sample_job Active 1 300 205))\<rparr>"
  unfolding sample_second_claim_def run_append sample_first_claim_run
  by (simp add: resolve_def requeueWithBackoff_def delayWithJitter_def backoffDelay_def
        retryCeiling_def claimNext_def claimable_def sample_job_def sample_policy_def Let_def)

lemma single_retry_second_claim_run:
  "run single_retry_policy initial sample_second_claim =
     \<lparr>jobStore = [sample_job Active 1 300 205],
      holding = (\<lambda>w. None)(0 := Some (0, sample_job Active 1 300 205))\<rparr>"
  unfolding sample_second_claim_def run_append sample_first_claim_run
  by (simp add: resolve_def requeueWithBackoff_def delayWithJitter_def backoffDelay_def
        retryCeiling_def claimNext_def claimable_def sample_job_def single_retry_policy_def
        sample_policy_def Let_def)

lemma sample_rejected_run:
  "run sample_policy initial sample_rejected =
     \<lparr>jobStore = [(sample_job Failed 0 2 0)\<lparr>lastError := Some (ChaincodeRejected, ''already exists'')\<rparr>],
      holding = (\<lambda>w. None)\<rparr>"
  unfolding sample_rejected_def run_append sample_first_claim_run
  by (simp add: resolve_def completeWithError_def sample_job_def sample_policy_def Let_def)

lemma sample_outage_run:
  "run sample_policy initial sample_outage =
     \<lparr>jobStore = [(sample_job Failed 1 301 205)\<lparr>lastError := Some (ConnectivityError, ''unreachable'')\<rparr>],
      holding = (\<lambda>w. None)\<rparr>"
  unfolding sample_outage_def run_append sample_first_claim_run
  by (simp add: resolve_def requeueWithBackoff_def completeWithError_def delayWithJitter_def
        backoffDelay_def retryCeiling_def claimNext_def claimable_def sample_job_def
        sample_policy_def Let_def)

lemma status_nth:
  "k < length s \<Longrightarrow>
   status k s = Inr \<lparr>status_state = state (s ! k), status_attempts = attempts (s ! k),
                     status_result = (case txId (s ! k) of None \<Rightarrow> None
                                      | Some t \<Rightarrow> map_option (Pair t) (payload (s ! k))),
                     status_error = lastError (s ! k)\<rparr>"
  by (simp add: status_def get_def)

lemma retryCeiling_le: "retryCeiling p e \<le> maximumAttempts p"
  by (simp add: retryCeiling_def)

lemma retryCeiling_other: "e \<noteq> ConnectivityError \<Longrightarrow> retryCeiling p e = maximumAttempts p"
  by (simp add: retryCeiling_def)

text \<open>
  C3, as stated, fails for the class with the lower ceiling: a job whose submit fails
  with \<open>ConnectivityError\<close> until no retry is left ends \<open>failed\<close> with an attempt
  count of 1, below the \<open>maximumAttempts\<close> of 3.
\<close>

theorem connectivity_exhausted_counterexample:
  "ConnectivityError \<in> retryable sample_policy
   \<and> maximumAttempts sample_policy = 3
   \<and> jobStore (run sample_policy initial sample_outage) ! 0
       = (sample_job Failed 1 301 205)\<lparr>lastError := Some (ConnectivityError, ''unreachable'')\<rparr>
   \<and> state (jobStore (run sample_policy initial sample_outage) ! 0) = Failed
   \<and> attempts (jobStore (run sample_policy initial sample_outage) ! 0) = 1"
  unfolding sample_outage_run by (simp add: sample_policy_def sample_job_def)

text \<open>
  C3, amended. In every reachable state of the system no job has an attempt count above
  \<open>maximumAttempts\<close>. When the submit of a held job fails with a retryable error and
  the retries of its class are used up, the job becomes \<open>failed\<close> with that error as
  its last error and its attempt count unchanged, at least the retry ceiling of the
  class and at most \<open>maximumAttempts\<close>: equal to \<open>maximumAttempts\<close> for every class
  but \<open>ConnectivityError\<close>. The same holds of every job recorded with a retryable
  error in a reachable state.
\<close>

theorem attempts_bounded:
  "(\<forall>j \<in> set (jobStore (run p initial es)). attempts j \<le> maximumAttempts p) \<and>
   (holding (run p initial es) w = Some c \<and> e \<in> retryable p \<and>
      \<not> attempts (snd c) < retryCeiling p e \<longrightarrow>
      state (jobStore (step p now (SubmitReturns w (SubmitFailed e msg) draw) (run p initial es)) ! fst c)
        = Failed \<and>
      lastError (jobStore (step p now (SubmitReturns w (SubmitFailed e msg) draw) (run p initial es)) ! fst c)
        = Some (e, msg) \<and>
      attempts (jobStore (step p now (SubmitReturns w (SubmitFailed e msg) draw) (run p initial es)) ! fst c)
        = attempts (snd c) \<and>
      retryCeiling p e \<le> attempts (snd c) \<and> attempts (snd c) \<le> maximumAttempts p \<and>
      (e \<noteq> ConnectivityError \<longrightarrow> attempts (snd c) = maximumAttempts p)) \<and>
   (i < length (jobStore (run p initial es)) \<and>
      lastError (jobStore (run p initial es) ! i) = Some (e', msg') \<and> e' \<in> retryable p \<longrightarrow>
      state (jobStore (run p initial es) ! i) = Failed \<and>
      retryCeiling p e' \<le> attempts (jobStore (run p initial es) ! i) \<and>
      attempts (jobStore (run p initial es) ! i) \<le> maximumAttempts p \<and>
      (e' \<noteq> ConnectivityError \<longrightarrow>
         attempts (jobStore (run p initial es) ! i) = maximumAttempts p))"
proof -
  let ?sys = "run p initial es"
  let ?sys' = "step p now (SubmitReturns w (SubmitFailed e msg) draw) ?sys"
  from reachable_inv [of p es] have h: "held_ok ?sys" and j: "jobs_ok p (jobStore ?sys)"
    by simp_all
  have bound: "\<forall>j \<in> set (jobStore ?sys). attempts j \<le> maximumAttempts p"
    using j by (simp add: jobs_ok_def job_ok_def)
  have exhausted: "state (jobStore ?sys' ! fst c) = Failed \<and>
      lastError (jobStore ?sys' ! fst c) = Some (e, msg) \<and>
      attempts (jobStore ?sys' ! fst c) = attempts (snd c) \<and>
      retryCeiling p e \<le> attempts (snd c) \<and> attempts (snd c) \<le> maximumAttempts p \<and>
      (e \<noteq> ConnectivityError \<longrightarrow> attempts (snd c) = maximumAttempts p)"
    if c: "holding ?sys w = Some c" and ex: "\<not> attempts (snd c) < retryCeiling p e"
  proof -
    from held_okD1 [OF h c] have k: "fst c < length (jobStore ?sys)"
      and eq: "jobStore ?sys ! fst c = snd c"
      by simp_all
    from jobs_ok_nth [OF j k] eq have b: "attempts (snd c) \<le> maximumAttempts p"
      by (simp add: job_ok_def)
    from ex have lo: "retryCeiling p e \<le> attempts (snd c)"
      by simp
    from lo b retryCeiling_other [of e p]
    have "e \<noteq> ConnectivityError \<longrightarrow> attempts (snd c) = maximumAttempts p"
      by auto
    with k ex lo b show ?thesis
      unfolding step_Submit_store [OF h c] by simp
  qed
  have recorded: "state (jobStore ?sys ! i) = Failed \<and>
      retryCeiling p e' \<le> attempts (jobStore ?sys ! i) \<and>
      attempts (jobStore ?sys ! i) \<le> maximumAttempts p \<and>
      (e' \<noteq> ConnectivityError \<longrightarrow> attempts (jobStore ?sys ! i) = maximumAttempts p)"
    if i: "i < length (jobStore ?sys)"
      and l: "lastError (jobStore ?sys ! i) = Some (e', msg')" and r: "e' \<in> retryable p"
  proof -
    from jobs_ok_nth [OF j i] l r
    have "state (jobStore ?sys ! i) = Failed"
      and lo: "retryCeiling p e' \<le> attempts (jobStore ?sys ! i)"
      and b: "attempts (jobStore ?sys ! i) \<le> maximumAttempts p"
      by (auto simp: job_ok_def)
    moreover from lo b retryCeiling_other [of e' p]
    have "e' \<noteq> ConnectivityError \<longrightarrow> attempts (jobStore ?sys ! i) = maximumAttempts p"
      by auto
    ultimately show ?thesis by blast
  qed
  from bound exhausted recorded show ?thesis
    by blast
qed

theorem attempts_bounded_witness:
  "holding (run single_retry_policy initial sample_second_claim) 0
     = Some (0, sample_job Active 1 300 205)
   \<and> OrderingTimeout \<in> retryable single_retry_policy
   \<and> \<not> attempts (sample_job Active 1 300 205) < retryCeiling single_retry_policy OrderingTimeout
   \<and> jobStore (step single_retry_policy 301 (SubmitReturns 0 (SubmitFailed OrderingTimeout ''timeout'') 7)
        (run single_retry_policy initial sample_second_claim)) ! 0
       = (sample_job Failed 1 301 205)\<lparr>lastError := Some (OrderingTimeout, ''timeout'')\<rparr>
   \<and> attempts (sample_job Active 1 300 205) = maximumAttempts single_retry_policy
   \<and> attempts (jobStore (run single_retry_policy initial sample_second_claim) ! 0)
       \<le> maximumAttempts single_retry_policy
   \<and> lastError (jobStore (run sample_policy initial sample_outage) ! 0)
       = Some (ConnectivityError, ''unreachable'')
   \<and> ConnectivityError \<in> retryable sample_policy
   \<and> retryCeiling sample_policy ConnectivityError = 1
   \<and> attempts (jobStore (run sample_policy initial sample_outage) ! 0) = 1"
  using attempts_bounded [of single_retry_policy sample_second_claim 0
          "(0, sample_job Active 1 300 205)" OrderingTimeout 301 "''timeout''" 7 0
          OrderingTimeout "''timeout''"]
        attempts_bounded [of sample_policy sample_outage 0
          "(0, sample_job Active 1 300 205)" OrderingTimeout 301 "''timeout''" 7 0
          ConnectivityError "''unreachable''"]
  unfolding single_retry_second_claim_run sample_outage_run
  by (simp add: resolve_def completeWithError_def retryCeiling_def sample_job_def
        single_retry_policy_def sample_policy_def)

text \<open>
  C4, as stated, fails for the class with the lower ceiling: a \<open>ConnectivityError\<close>
  at attempt count 1, below the \<open>maximumAttempts\<close> of 3 but at the ceiling of its
  class, fails the job, and the status shows the error.
\<close>

theorem connectivity_error_visible_counterexample:
  "holding (run sample_policy initial sample_second_claim) 0
     = Some (0, sample_job Active 1 300 205)
   \<and> ConnectivityError \<in> retryable sample_policy
   \<and> attempts (sample_job Active 1 300 205) < maximumAttempts sample_policy
   \<and> status 0 (jobStore (step sample_policy 301
                 (SubmitReturns 0 (SubmitFailed ConnectivityError ''unreachable'') 4)
                 (run sample_policy initial sample_second_claim)))
       = Inr \<lparr>status_state = Failed, status_attempts = 1, status_result = None,
              status_error = Some (ConnectivityError, ''unreachable'')\<rparr>"
  unfolding sample_second_claim_run
  by (simp add: resolve_def completeWithError_def retryCeiling_def status_def get_def
        sample_job_def sample_policy_def Let_def)

text \<open>
  C4, amended. When the submit of a held job returns an error that is not retryable, the
  worker marks the job \<open>failed\<close> with the classified error, the attempt count as it was
  (no requeue), and is idle again. When it returns a retryable error below the retry
  ceiling of its class, the status of the job shows \<open>queued\<close> with one more attempt and
  no error. In every reachable state a status shows an error only for a failed job.
\<close>

theorem terminal_error_fails_at_once:
  "(holding (run p initial es) w = Some c \<and> e \<notin> retryable p \<longrightarrow>
      (\<exists>js. status (fst c)
               (jobStore (step p now (SubmitReturns w (SubmitFailed e msg) draw) (run p initial es)))
             = Inr js \<and>
            status_state js = Failed \<and> status_attempts js = attempts (snd c) \<and>
            status_error js = Some (e, msg)) \<and>
      holding (step p now (SubmitReturns w (SubmitFailed e msg) draw) (run p initial es)) w = None) \<and>
   (holding (run p initial es) w = Some c \<and> e \<in> retryable p \<and>
      attempts (snd c) < retryCeiling p e \<longrightarrow>
      (\<exists>js. status (fst c)
               (jobStore (step p now (SubmitReturns w (SubmitFailed e msg) draw) (run p initial es)))
             = Inr js \<and>
            status_state js = Queued \<and> status_attempts js = attempts (snd c) + 1 \<and>
            status_error js = None)) \<and>
   (status i (jobStore (run p initial es)) = Inr st \<and> status_error st \<noteq> None \<longrightarrow>
      status_state st = Failed)"
proof -
  let ?sys = "run p initial es"
  let ?sys' = "step p now (SubmitReturns w (SubmitFailed e msg) draw) ?sys"
  from reachable_inv [of p es] have h: "held_ok ?sys" and j: "jobs_ok p (jobStore ?sys)"
    by simp_all
  have terminal: "(\<exists>js. status (fst c) (jobStore ?sys') = Inr js \<and>
            status_state js = Failed \<and> status_attempts js = attempts (snd c) \<and>
            status_error js = Some (e, msg)) \<and> holding ?sys' w = None"
    if c: "holding ?sys w = Some c" and t: "e \<notin> retryable p"
  proof -
    from held_okD1 [OF h c] have k: "fst c < length (jobStore ?sys)"
      by simp
    with t show ?thesis
      unfolding step_Submit_store [OF h c] by (simp add: status_nth)
  qed
  have retry: "\<exists>js. status (fst c) (jobStore ?sys') = Inr js \<and>
            status_state js = Queued \<and> status_attempts js = attempts (snd c) + 1 \<and>
            status_error js = None"
    if c: "holding ?sys w = Some c" and r: "e \<in> retryable p"
      and b: "attempts (snd c) < retryCeiling p e"
  proof -
    from held_okD1 [OF h c] have k: "fst c < length (jobStore ?sys)"
      and eq: "jobStore ?sys ! fst c = snd c" and act: "state (snd c) = Active"
      by simp_all
    from jobs_ok_nth [OF j k] eq act have "lastError (snd c) = None"
      by (intro job_ok_no_error [of p]) simp_all
    with k r b show ?thesis
      unfolding step_Submit_store [OF h c] by (simp add: status_nth)
  qed
  have hidden: "status_state st = Failed"
    if s: "status i (jobStore ?sys) = Inr st" and e: "status_error st \<noteq> None"
  proof -
    from s have k: "i < length (jobStore ?sys)"
      by (auto simp: status_def get_def split: if_splits)
    from s e jobs_ok_nth [OF j k] show ?thesis
      by (auto simp: status_nth [OF k] job_ok_def)
  qed
  from terminal retry hidden show ?thesis
    by blast
qed

theorem terminal_error_fails_at_once_witness:
  "holding (run sample_policy initial sample_first_claim) 0 = Some (0, sample_job Active 0 1 0)
   \<and> ChaincodeRejected \<notin> retryable sample_policy
   \<and> status 0 (jobStore (step sample_policy 2
                 (SubmitReturns 0 (SubmitFailed ChaincodeRejected ''already exists'') 3)
                 (run sample_policy initial sample_first_claim)))
       = Inr \<lparr>status_state = Failed, status_attempts = 0, status_result = None,
              status_error = Some (ChaincodeRejected, ''already exists'')\<rparr>
   \<and> EndorsementConflict \<in> retryable sample_policy
   \<and> attempts (sample_job Active 0 1 0) < retryCeiling sample_policy EndorsementConflict
   \<and> status 0 (jobStore (step sample_policy 2
                 (SubmitReturns 0 (SubmitFailed EndorsementConflict ''mvcc read conflict'') 3)
                 (run sample_policy initial sample_first_claim)))
       = Inr \<lparr>status_state = Queued, status_attempts = 1, status_result = None,
              status_error = None\<rparr>
   \<and> status 0 (jobStore (run sample_policy initial sample_rejected))
       = Inr \<lparr>status_state = Failed, status_attempts = 0, status_result = None,
              status_error = Some (ChaincodeRejected, ''already exists'')\<rparr>"
  using terminal_error_fails_at_once
          [of sample_policy sample_first_claim 0 "(0, sample_job Active 0 1 0)" ChaincodeRejected
              2 "''already exists''" 3 0
              "\<lparr>status_state = Failed, status_attempts = 0, status_result = None,
                status_error = Some (ChaincodeRejected, ''already exists'')\<rparr>"]
        terminal_error_fails_at_once
          [of sample_policy sample_first_claim 0 "(0, sample_job Active 0 1 0)" EndorsementConflict
              2 "''mvcc read conflict''" 3 0
              "\<lparr>status_state = Failed, status_attempts = 0, status_result = None,
                status_error = Some (ChaincodeRejected, ''already exists'')\<rparr>"]
        terminal_error_fails_at_once
          [of sample_policy sample_rejected 0 "(0, sample_job Active 0 1 0)" ChaincodeRejected
              2 "''already exists''" 3 0
              "\<lparr>status_state = Failed, status_attempts = 0, status_result = None,
                status_error = Some (ChaincodeRejected, ''already exists'')\<rparr>"]
  unfolding sample_first_claim_run sample_rejected_run
  by (simp add: resolve_def completeWithError_def requeueWithBackoff_def retryCeiling_def
        status_def get_def sample_job_def sample_policy_def Let_def)

end
